theory Spec2Isabelle
  imports Complex_Main "HOL-Library.Log_Nat"
begin

section \<open>JavaScript values\<close>

text \<open>
  The backend (\<^verbatim>\<open>iot-backend/server.js\<close>) is an Express application over a Supabase
  table \<^verbatim>\<open>readings\<close>. Its handlers are embedded as functions from the request, the
  environment of the process and the table to the response and the table. The middleware
  in front of the handlers (the rate limiters, the JSON body parser) is not part of the
  embedding: a handler is modelled for the requests that reach it. Writing to the console
  is left out.

  A JavaScript number is \<open>NaN\<close>, one of the two infinities, or a finite binary64
  value, held as the rational it is equal to. Every operation that JavaScript rounds
  (reading a literal, adding, dividing) rounds here with \<open>r64\<close>, defined below. The two
  zeros are one value (they compare equal).
\<close>

datatype jsnum = NaN | PosInf | NegInf | Fin rat

text \<open>The exceptions that the built-in functions of the handlers can throw.\<close>

datatype js_error = TypeError | RangeError

text \<open>
  A value read from a parsed JSON body. \<open>JUndefined\<close> is what reading an absent property
  gives. An array or a nested object is kept as the string that \<^verbatim>\<open>ToString\<close> turns it
  into, which is all that \<^verbatim>\<open>parseFloat\<close> sees of it. \<open>JUnprintable\<close> is an array or
  object for which \<^verbatim>\<open>ToString\<close> throws a \<^verbatim>\<open>TypeError\<close>, as it does for
  \<^verbatim>\<open>{"toString": 1}\<close>: the property of the value hides the method of the prototype and is
  not callable.
\<close>

datatype jsval =
  JUndefined | JNull | JBool bool | JNum jsnum | JStr string | JObj string | JUnprintable

type_synonym jsobject = "string \<Rightarrow> jsval"

text \<open>The relational operators on numbers: every comparison with \<open>NaN\<close> is false.\<close>

fun js_lt :: "jsnum \<Rightarrow> jsnum \<Rightarrow> bool" where
  "js_lt NaN y = False"
| "js_lt x NaN = False"
| "js_lt (Fin a) (Fin b) = (a < b)"
| "js_lt (Fin a) PosInf = True"
| "js_lt (Fin a) NegInf = False"
| "js_lt NegInf NegInf = False"
| "js_lt NegInf y = True"
| "js_lt PosInf y = False"

definition js_gt :: "jsnum \<Rightarrow> jsnum \<Rightarrow> bool" where
  "js_gt x y = js_lt y x"

definition isNaN :: "jsnum \<Rightarrow> bool" where
  "isNaN x = (x = NaN)"

fun js_neg :: "jsnum \<Rightarrow> jsnum" where
  "js_neg NaN = NaN"
| "js_neg PosInf = NegInf"
| "js_neg NegInf = PosInf"
| "js_neg (Fin a) = Fin (- a)"

text \<open>\<^verbatim>\<open>ToBoolean\<close>, as the operator \<^verbatim>\<open>||\<close> applies it to its left operand.\<close>

fun truthy :: "jsval \<Rightarrow> bool" where
  "truthy JUndefined = False"
| "truthy JNull = False"
| "truthy (JBool b) = b"
| "truthy (JNum n) = (n \<noteq> NaN \<and> n \<noteq> Fin 0)"
| "truthy (JStr s) = (s \<noteq> [])"
| "truthy (JObj s) = True"
| "truthy JUnprintable = True"

section \<open>Rounding to binary64\<close>

text \<open>
  \<open>r64 q\<close> is the binary64 value nearest to the rational \<open>q\<close>, a tie going to the even
  significand, as IEEE 754 prescribes for the result of an operation. With \<open>e\<close> the
  exponent of \<open>q\<close>, not below that of the subnormal numbers, the significand is \<open>q\<close>
  scaled to 53 bits and rounded to an integer; a result of \<open>2^1024\<close> or more is an infinity.
\<close>

definition floor_log2 :: "rat \<Rightarrow> int" where
  "floor_log2 a =
     (if 1 \<le> a then bitlen \<lfloor>a\<rfloor> - 1
      else - bitlen (\<lceil>1 / a\<rceil> - 1))"

definition round_half_even :: "rat \<Rightarrow> int" where
  "round_half_even x =
     (let f = \<lfloor>x\<rfloor>; r = x - of_int f
      in if r < 1 / 2 then f
         else if 1 / 2 < r then f + 1
         else if even f then f else f + 1)"

definition scale2 :: "rat \<Rightarrow> int \<Rightarrow> rat" where
  "scale2 x k = (if 0 \<le> k then x * of_int (2 ^ nat k) else x / of_int (2 ^ nat (- k)))"

definition r64 :: "rat \<Rightarrow> jsnum" where
  "r64 q =
     (if q = 0 then Fin 0
      else
        let a = \<bar>q\<bar>;
            e = max (floor_log2 a) (- 1022);
            n = round_half_even (scale2 a (52 - e));
            v = scale2 (of_int n) (e - 52)
        in if of_int (2 ^ 1024) \<le> v then (if q < 0 then NegInf else PosInf)
           else Fin (if q < 0 then - v else v))"

section \<open>parseFloat\<close>

text \<open>
  Strings are lists of 8-bit characters, read as the code units U+0000 to U+00FF.
  \<^verbatim>\<open>parseFloat\<close> converts its argument to a string, drops leading white space, and reads
  the longest prefix that is a \<^verbatim>\<open>StrDecimalLiteral\<close>:
  an optional sign, then \<^verbatim>\<open>Infinity\<close>, or digits with an optional fraction and an optional
  exponent, or a fraction that starts with the dot. An exponent counts only when at least
  one digit follows the \<^verbatim>\<open>e\<close> and its sign. Without such a prefix the result is \<open>NaN\<close>.
  The value of the literal is rounded to binary64.
\<close>

definition is_digit :: "char \<Rightarrow> bool" where
  "is_digit c = (c \<in> set ''0123456789'')"

definition digit_val :: "char \<Rightarrow> nat" where
  "digit_val c = of_char c - 48"

definition digits_val :: "string \<Rightarrow> nat" where
  "digits_val ds = foldl (\<lambda>acc c. 10 * acc + digit_val c) 0 ds"

definition is_space :: "char \<Rightarrow> bool" where
  "is_space c = (c \<in> set [CHR 0x09, CHR 0x0A, CHR 0x0B, CHR 0x0C, CHR 0x0D, CHR 0x20, CHR 0xA0])"

definition scale10 :: "rat \<Rightarrow> int \<Rightarrow> rat" where
  "scale10 m e = (if 0 \<le> e then m * 10 ^ nat e else m / 10 ^ nat (- e))"

text \<open>The exponent part, if there is a complete one; otherwise exponent 0 and nothing read.\<close>

definition scan_exponent :: "string \<Rightarrow> int \<times> string" where
  "scan_exponent s =
     (case s of
        [] \<Rightarrow> (0, s)
      | c # t \<Rightarrow>
          if c = CHR ''e'' \<or> c = CHR ''E'' then
            (let neg = (case t of [] \<Rightarrow> False | d # u \<Rightarrow> d = CHR ''-'');
                 u = (case t of [] \<Rightarrow> t | d # u \<Rightarrow> if d = CHR ''-'' \<or> d = CHR ''+'' then u else t);
                 ds = takeWhile is_digit u
             in if ds = [] then (0, s)
                else (if neg then - int (digits_val ds) else int (digits_val ds),
                      dropWhile is_digit u))
          else (0, s))"

text \<open>\<^verbatim>\<open>StrUnsignedDecimalLiteral\<close>: the value read and the rest of the input.\<close>

definition scan_unsigned :: "string \<Rightarrow> (jsnum \<times> string) option" where
  "scan_unsigned s =
     (if take 8 s = ''Infinity'' then Some (PosInf, drop 8 s)
      else
        let ip = takeWhile is_digit s;
            r1 = dropWhile is_digit s;
            dot = (case r1 of [] \<Rightarrow> False
                   | c # t \<Rightarrow> c = CHR ''.'' \<and> (ip \<noteq> [] \<or> takeWhile is_digit t \<noteq> []));
            fp = (if dot then takeWhile is_digit (tl r1) else []);
            r2 = (if dot then dropWhile is_digit (tl r1) else r1)
        in if ip = [] \<and> fp = [] then None
           else
             let m = of_nat (digits_val ip) + of_nat (digits_val fp) / 10 ^ length fp;
                 er = scan_exponent r2
             in Some (r64 (scale10 m (fst er)), snd er))"

definition scan_signed :: "string \<Rightarrow> (jsnum \<times> string) option" where
  "scan_signed s =
     (case s of
        [] \<Rightarrow> None
      | c # t \<Rightarrow>
          if c = CHR ''-'' then map_option (\<lambda>(v, r). (js_neg v, r)) (scan_unsigned t)
          else if c = CHR ''+'' then scan_unsigned t
          else scan_unsigned s)"

definition parseFloat_str :: "string \<Rightarrow> jsnum" where
  "parseFloat_str s =
     (case scan_signed (dropWhile is_space s) of None \<Rightarrow> NaN | Some (v, r) \<Rightarrow> v)"

text \<open>
  \<^verbatim>\<open>parseFloat(x)\<close> for a value \<open>x\<close>: the number read, or the error thrown by the
  conversion of \<open>x\<close> to a string. A number is first printed and then read back, which
  gives the number itself; \<^verbatim>\<open>undefined\<close>, \<^verbatim>\<open>null\<close> and the booleans print as their
  names.
\<close>

fun parseFloat :: "jsval \<Rightarrow> js_error + jsnum" where
  "parseFloat (JNum n) = Inr n"
| "parseFloat (JStr s) = Inr (parseFloat_str s)"
| "parseFloat (JObj s) = Inr (parseFloat_str s)"
| "parseFloat JUnprintable = Inl TypeError"
| "parseFloat JUndefined = Inr (parseFloat_str ''undefined'')"
| "parseFloat JNull = Inr (parseFloat_str ''null'')"
| "parseFloat (JBool b) = Inr (parseFloat_str (if b then ''true'' else ''false''))"

section \<open>parseInt\<close>

text \<open>
  \<^verbatim>\<open>parseInt(x)\<close> with no radix: leading white space is dropped, then a sign, then the
  prefix \<^verbatim>\<open>0x\<close> or \<^verbatim>\<open>0X\<close> that selects radix 16, and the digits of the radix up
  to the first other character are read. No digit gives \<open>NaN\<close>. The integer read is
  rounded to binary64.
\<close>

definition is_hex_digit :: "char \<Rightarrow> bool" where
  "is_hex_digit c = (c \<in> set ''0123456789abcdefABCDEF'')"

definition hex_val :: "char \<Rightarrow> nat" where
  "hex_val c =
     (if is_digit c then of_char c - 48
      else if c \<in> set ''abcdef'' then of_char c - 87
      else of_char c - 55)"

definition radix_val :: "nat \<Rightarrow> string \<Rightarrow> nat" where
  "radix_val R ds = foldl (\<lambda>acc c. R * acc + hex_val c) 0 ds"

definition parseInt_str :: "string \<Rightarrow> jsnum" where
  "parseInt_str inputString =
     (let S = dropWhile is_space inputString;
          neg = (case S of [] \<Rightarrow> False | c # t \<Rightarrow> c = CHR ''-'');
          S1 = (case S of [] \<Rightarrow> S | c # t \<Rightarrow> if c = CHR ''+'' \<or> c = CHR ''-'' then t else S);
          hex = (take 2 S1 = ''0x'' \<or> take 2 S1 = ''0X'');
          S2 = (if hex then drop 2 S1 else S1);
          R = (if hex then 16 else 10);
          Z = takeWhile (if hex then is_hex_digit else is_digit) S2
      in if Z = [] then NaN
         else if neg then js_neg (r64 (of_nat (radix_val R Z)))
         else r64 (of_nat (radix_val R Z)))"

text \<open>
  A value of \<^verbatim>\<open>req.query\<close>: absent, a string, or an array or object of the query-string
  parser, kept as the string it converts to, or \<open>QUnprintable\<close> when that conversion
  throws (the query \<^verbatim>\<open>?limit[toString]=1\<close> is parsed to such an object).
\<close>

datatype qsval = QUndefined | QStr string | QObj string | QUnprintable

fun parseInt :: "qsval \<Rightarrow> js_error + jsnum" where
  "parseInt (QStr s) = Inr (parseInt_str s)"
| "parseInt (QObj s) = Inr (parseInt_str s)"
| "parseInt QUnprintable = Inl TypeError"
| "parseInt QUndefined = Inr (parseInt_str ''undefined'')"

section \<open>Arithmetic of the statistics\<close>

text \<open>Addition: the sum of two finite numbers is rounded to binary64.\<close>

fun js_add :: "jsnum \<Rightarrow> jsnum \<Rightarrow> jsnum" where
  "js_add NaN y = NaN"
| "js_add x NaN = NaN"
| "js_add (Fin a) (Fin b) = r64 (a + b)"
| "js_add PosInf NegInf = NaN"
| "js_add NegInf PosInf = NaN"
| "js_add PosInf y = PosInf"
| "js_add NegInf y = NegInf"
| "js_add (Fin a) y = y"

text \<open>
  Division: the quotient of two finite numbers is rounded to binary64. The only divisor
  in the source is the length of an array, so a zero divisor is the positive zero: a
  non-zero finite number divided by it is the infinity of the sign of the dividend, and
  zero divided by it is \<open>NaN\<close>.
\<close>

fun js_div :: "jsnum \<Rightarrow> jsnum \<Rightarrow> jsnum" where
  "js_div NaN y = NaN"
| "js_div x NaN = NaN"
| "js_div (Fin a) (Fin b) =
     (if b = 0 then (if a = 0 then NaN else if 0 < a then PosInf else NegInf)
      else r64 (a / b))"
| "js_div (Fin a) y = Fin 0"
| "js_div PosInf (Fin b) = (if b < 0 then NegInf else PosInf)"
| "js_div NegInf (Fin b) = (if b < 0 then PosInf else NegInf)"
| "js_div x y = NaN"

text \<open>
  \<^verbatim>\<open>Math.min(...xs)\<close> and \<^verbatim>\<open>Math.max(...xs)\<close>: \<open>NaN\<close> if an argument is \<open>NaN\<close>,
  otherwise the least (greatest) argument, starting from the infinity that an empty
  argument list gives.
\<close>

definition Math_min :: "jsnum list \<Rightarrow> jsnum" where
  "Math_min xs =
     (if NaN \<in> set xs then NaN
      else foldl (\<lambda>lowest n. if js_lt n lowest then n else lowest) PosInf xs)"

definition Math_max :: "jsnum list \<Rightarrow> jsnum" where
  "Math_max xs =
     (if NaN \<in> set xs then NaN
      else foldl (\<lambda>highest n. if js_gt n highest then n else highest) NegInf xs)"

text \<open>The decimal digits of a natural number, most significant first.\<close>

fun nat_digits :: "nat \<Rightarrow> string" where
  "nat_digits n =
     (if n < 10 then [''0123456789'' ! n]
      else nat_digits (n div 10) @ [''0123456789'' ! (n mod 10)])"

declare nat_digits.simps [simp del]

text \<open>
  \<^verbatim>\<open>x.toFixed(f)\<close> returns a string. For a finite \<open>x\<close> below \<open>10^21\<close> in magnitude it
  takes the integer \<open>n\<close> with \<open>n / 10^f\<close> nearest to the magnitude of \<open>x\<close>, the larger one
  of two, pads the digits of \<open>n\<close> with zeros to at least \<open>f + 1\<close> places and puts the dot
  before the last \<open>f\<close>; this is exact arithmetic on the value of \<open>x\<close>. From \<open>10^21\<close> on
  it returns the exponential notation of the number, kept here as \<open>Exponential x\<close>.
\<close>

datatype numeral_text = Decimal string | Exponential rat

definition toFixed :: "jsnum \<Rightarrow> nat \<Rightarrow> numeral_text" where
  "toFixed x f =
     (case x of
        NaN \<Rightarrow> Decimal ''NaN''
      | PosInf \<Rightarrow> Decimal ''Infinity''
      | NegInf \<Rightarrow> Decimal ''-Infinity''
      | Fin q \<Rightarrow>
          (let s = (if q < 0 then ''-'' else []);
               a = \<bar>q\<bar>
           in if 10 ^ 21 \<le> a then Exponential q
              else
                let n = nat \<lfloor>a * 10 ^ f + 1 / 2\<rfloor>;
                    m = (if n = 0 then ''0'' else nat_digits n);
                    m' = (if length m \<le> f then replicate (f + 1 - length m) CHR ''0'' @ m else m);
                    k = length m'
                in Decimal (s @ (if f \<noteq> 0 then take (k - f) m' @ ''.'' @ drop (k - f) m' else m'))))"

section \<open>The readings table\<close>

text \<open>
  The table is held by Supabase, outside the repository. It is modelled as the list of
  its rows in insertion order, together with the requests the client has sent to it.
  What only the database decides is a parameter of the model, in the record \<open>env\<close>:
  whether a request fails (\<open>store_fault\<close>, the error the client then returns), which
  instant a submitted \<^verbatim>\<open>created_at\<close> value denotes (\<open>timestamptz_in\<close>, \<open>None\<close> when the
  database rejects the value), and the answer to a row limit that is not a natural
  number (\<open>other_limit\<close>). The record also holds the environment variables of the
  process and the clock of the request: \<open>now_iso\<close> is the string that
  \<^verbatim>\<open>new Date().toISOString()\<close> gives, and \<open>today\<close> is the instant of local midnight
  that the statistics query passes as its lower bound. Rows of equal \<^verbatim>\<open>created_at\<close>
  come in whatever order the database picks; the model picks one. \<open>max_arguments\<close> is
  the number of arguments the JavaScript engine accepts in one call: spreading a longer
  array into \<^verbatim>\<open>Math.min\<close> throws a \<^verbatim>\<open>RangeError\<close>.
\<close>

type_synonym timestamp = int

record measurement =
  temperature :: jsval
  humidity :: jsval

record reading = measurement +
  created_at :: timestamp
  source :: string

datatype sb_call =
    Insert jsnum jsnum jsval string
  | SelectRecent jsnum
  | SelectLatest
  | SelectSince timestamp

record db =
  rows :: "reading list"
  calls :: "sb_call list"

text \<open>The pair \<^verbatim>\<open>{data, error}\<close> that every call of the client resolves to.\<close>

record 'a sb_result =
  data :: "'a option"
  error :: "string option"

record env =
  process_env :: "string \<Rightarrow> string option"
  now_iso :: string
  today :: timestamp
  timestamptz_in :: "jsval \<Rightarrow> timestamp option"
  store_fault :: "string option"
  other_limit :: "reading list \<Rightarrow> (reading list) sb_result"
  max_arguments :: nat

definition failed :: "string \<Rightarrow> 'a sb_result" where
  "failed msg = \<lparr>data = None, error = Some msg\<rparr>"

definition returned :: "'a \<Rightarrow> 'a sb_result" where
  "returned x = \<lparr>data = Some x, error = None\<rparr>"

text \<open>
  \<^verbatim>\<open>.from('readings').insert([{temperature, humidity, created_at, source}]).select()\<close>:
  on success the data is the list of the one inserted row.
\<close>

definition sb_insert ::
  "env \<Rightarrow> jsnum \<Rightarrow> jsnum \<Rightarrow> jsval \<Rightarrow> string \<Rightarrow> db \<Rightarrow> (reading list) sb_result \<times> db" where
  "sb_insert E t h c src d =
     (let d' = d\<lparr>calls := calls d @ [Insert t h c src]\<rparr> in
      case store_fault E of
        Some err \<Rightarrow> (failed err, d')
      | None \<Rightarrow>
          (case timestamptz_in E c of
             None \<Rightarrow> (failed ''invalid input syntax for type timestamp with time zone'', d')
           | Some ts \<Rightarrow>
               (let r = \<lparr>temperature = JNum t, humidity = JNum h, created_at = ts, source = src\<rparr>
                in (returned [r], d'\<lparr>rows := rows d' @ [r]\<rparr>))))"

text \<open>\<^verbatim>\<open>.order('created_at', { ascending: false })\<close>: the rows, newest first.\<close>

definition newest_first :: "reading list \<Rightarrow> reading list" where
  "newest_first rs = rev (sort_key created_at rs)"

text \<open>\<^verbatim>\<open>.select('*').order('created_at', { ascending: false }).limit(n)\<close>.\<close>

definition sb_select_recent :: "env \<Rightarrow> jsnum \<Rightarrow> db \<Rightarrow> (reading list) sb_result \<times> db" where
  "sb_select_recent E n d =
     (let d' = d\<lparr>calls := calls d @ [SelectRecent n]\<rparr> in
      case store_fault E of
        Some err \<Rightarrow> (failed err, d')
      | None \<Rightarrow>
          (case n of
             Fin k \<Rightarrow>
               if 0 \<le> k \<and> k = of_int \<lfloor>k\<rfloor> then (returned (take (nat \<lfloor>k\<rfloor>) (newest_first (rows d))), d')
               else (other_limit E (newest_first (rows d)), d')
           | _ \<Rightarrow> (other_limit E (newest_first (rows d)), d')))"

text \<open>
  \<^verbatim>\<open>.select('*').order('created_at', { ascending: false }).limit(1).single()\<close>.
  With \<^verbatim>\<open>.single()\<close> the client asks for exactly one row as an object: when the query
  yields no row, the client resolves to an error (PostgREST code PGRST116) and null data.
\<close>

definition sb_select_latest :: "env \<Rightarrow> db \<Rightarrow> reading sb_result \<times> db" where
  "sb_select_latest E d =
     (let d' = d\<lparr>calls := calls d @ [SelectLatest]\<rparr> in
      case store_fault E of
        Some err \<Rightarrow> (failed err, d')
      | None \<Rightarrow>
          (case take 1 (newest_first (rows d)) of
             [r] \<Rightarrow> (returned r, d')
           | _ \<Rightarrow> (failed ''JSON object requested, multiple (or no) rows returned'', d')))"

text \<open>\<^verbatim>\<open>.select('temperature, humidity').gte('created_at', t)\<close>.\<close>

definition sb_select_since :: "env \<Rightarrow> timestamp \<Rightarrow> db \<Rightarrow> (measurement list) sb_result \<times> db" where
  "sb_select_since E t d =
     (let d' = d\<lparr>calls := calls d @ [SelectSince t]\<rparr> in
      case store_fault E of
        Some err \<Rightarrow> (failed err, d')
      | None \<Rightarrow>
          (returned (map measurement.truncate (filter (\<lambda>r. t \<le> created_at r) (rows d))), d'))"

section \<open>Requests and responses\<close>

record summary =
  min_val :: "jsnum option"
  max_val :: "jsnum option"
  avg_val :: "numeral_text option"

record stats =
  count :: nat
  temperature_summary :: summary
  humidity_summary :: summary

text \<open>
  The object handed to \<^verbatim>\<open>res.json\<close>. All but \<open>ErrorBody\<close> carry \<^verbatim>\<open>success: true\<close>;
  \<open>None\<close> stands for \<^verbatim>\<open>null\<close> or \<^verbatim>\<open>undefined\<close> data.
\<close>

datatype body =
    ErrorBody string
  | SavedBody "reading option" string
  | ReadingsBody nat "reading list"
  | LatestBody "reading option"
  | StatsBody stats

record response =
  status :: nat
  body :: body

record request =
  headers :: "string \<Rightarrow> string option"
  payload :: "jsobject option"
  query :: "string \<Rightarrow> qsval"

definition json :: "nat \<Rightarrow> body \<Rightarrow> response" where
  "json c b = \<lparr>status = c, body = b\<rparr>"

section \<open>The ingestion endpoint\<close>

text \<open>
  \<^verbatim>\<open>app.post('/webhook/thingspeak', ...)\<close>. \<open>payload req\<close> is \<^verbatim>\<open>req.body\<close>; it is \<open>None\<close>
  when no body was parsed and \<^verbatim>\<open>req.body\<close> is undefined, where the destructuring throws
  and the \<^verbatim>\<open>catch\<close> block answers, as it does when \<^verbatim>\<open>parseFloat\<close> throws and when
  \<^verbatim>\<open>data[0]\<close> is read from null data.
\<close>

definition webhook_thingspeak :: "env \<Rightarrow> request \<Rightarrow> db \<Rightarrow> response \<times> db" where
  "webhook_thingspeak E req d =
     (let secret = headers req ''x-webhook-secret'' in
      if secret \<noteq> process_env E ''WEBHOOK_SECRET'' then
        (json 401 (ErrorBody ''Unauthorized''), d)
      else
        case payload req of
          None \<Rightarrow> (json 500 (ErrorBody ''Error interno del servidor''), d)
        | Some b \<Rightarrow>
            (let temperature = b ''temperature'';
                 humidity = b ''humidity'';
                 created_at = b ''created_at''
             in if temperature = JUndefined \<or> humidity = JUndefined then
                  (json 400 (ErrorBody ''Faltan campos requeridos''), d)
                else
                  case parseFloat temperature of
                    Inl e \<Rightarrow> (json 500 (ErrorBody ''Error interno del servidor''), d)
                  | Inr temp \<Rightarrow>
                      (case parseFloat humidity of
                         Inl e \<Rightarrow> (json 500 (ErrorBody ''Error interno del servidor''), d)
                       | Inr hum \<Rightarrow>
                           if isNaN temp \<or> isNaN hum \<or> js_lt temp (Fin (- 50)) \<or> js_gt temp (Fin 100)
                              \<or> js_lt hum (Fin 0) \<or> js_gt hum (Fin 100) then
                             (json 400 (ErrorBody ''Valores fuera de rango''), d)
                           else
                             let (res, d') = sb_insert E temp hum
                                    (if truthy created_at then created_at else JStr (now_iso E))
                                    ''thingspeak'' d
                             in if error res \<noteq> None then
                                  (json 500 (ErrorBody ''Error al guardar datos''), d')
                                else
                                  (case data res of
                                     None \<Rightarrow> (json 500 (ErrorBody ''Error interno del servidor''), d')
                                   | Some rs \<Rightarrow>
                                       (json 201
                                          (SavedBody (case rs of [] \<Rightarrow> None | r # rs' \<Rightarrow> Some r)
                                             ''Datos guardados correctamente''), d')))))"

section \<open>The query endpoints\<close>

text \<open>
  \<^verbatim>\<open>app.get('/api/readings', ...)\<close>. \<^verbatim>\<open>parseInt(req.query.limit) || 100\<close> takes 100 when
  the parsed number is \<open>NaN\<close> or zero. A thrown error, that of \<^verbatim>\<open>parseInt\<close> and that of
  reading the length of null data too, is answered by the \<^verbatim>\<open>catch\<close> block.
\<close>

definition get_readings :: "env \<Rightarrow> request \<Rightarrow> db \<Rightarrow> response \<times> db" where
  "get_readings E req d =
     (case parseInt (query req ''limit'') of
        Inl e \<Rightarrow> (json 500 (ErrorBody ''Error al obtener datos''), d)
      | Inr n \<Rightarrow>
          (let limit = (if truthy (JNum n) then n else Fin 100);
               maxLimit = Fin 1000;
               (res, d') = sb_select_recent E (Math_min [limit, maxLimit]) d
           in if error res \<noteq> None then (json 500 (ErrorBody ''Error al obtener datos''), d')
              else
                case data res of
                  None \<Rightarrow> (json 500 (ErrorBody ''Error al obtener datos''), d')
                | Some rs \<Rightarrow> (json 200 (ReadingsBody (length rs) (rev rs)), d')))"

text \<open>\<^verbatim>\<open>app.get('/api/readings/latest', ...)\<close>.\<close>

definition get_latest :: "env \<Rightarrow> db \<Rightarrow> response \<times> db" where
  "get_latest E d =
     (let (res, d') = sb_select_latest E d
      in if error res \<noteq> None then (json 500 (ErrorBody ''Error al obtener datos''), d')
         else (json 200 (LatestBody (data res)), d'))"

text \<open>
  The statistics that \<^verbatim>\<open>app.get('/api/stats/today', ...)\<close> computes from the rows the
  query returned: the object of the empty case, or the counts, extrema and averages.
  The computation throws when \<^verbatim>\<open>parseFloat\<close> throws on a field, at the first such row,
  and when the rows are more than the engine accepts as arguments of \<^verbatim>\<open>Math.min\<close>.
\<close>

fun collect :: "('e + 'a) list \<Rightarrow> 'e + 'a list" where
  "collect [] = Inr []"
| "collect (x # xs) =
     (case x of
        Inl e \<Rightarrow> Inl e
      | Inr v \<Rightarrow> (case collect xs of Inl e \<Rightarrow> Inl e | Inr vs \<Rightarrow> Inr (v # vs)))"

definition no_stats :: stats where
  "no_stats =
     \<lparr>count = 0,
      temperature_summary = \<lparr>min_val = None, max_val = None, avg_val = None\<rparr>,
      humidity_summary = \<lparr>min_val = None, max_val = None, avg_val = None\<rparr>\<rparr>"

definition summarise :: "jsnum list \<Rightarrow> summary" where
  "summarise xs =
     \<lparr>min_val = Some (Math_min xs),
      max_val = Some (Math_max xs),
      avg_val = Some (toFixed (js_div (foldl js_add (Fin 0) xs) (Fin (of_nat (length xs)))) 2)\<rparr>"

definition today_stats :: "nat \<Rightarrow> measurement list \<Rightarrow> js_error + stats" where
  "today_stats max_args rs =
     (if length rs = 0 then Inr no_stats
      else
        case collect (map (\<lambda>r. parseFloat (temperature r)) rs) of
          Inl e \<Rightarrow> Inl e
        | Inr temps \<Rightarrow>
            (case collect (map (\<lambda>r. parseFloat (humidity r)) rs) of
               Inl e \<Rightarrow> Inl e
             | Inr hums \<Rightarrow>
                 if max_args < length temps then Inl RangeError
                 else Inr \<lparr>count = length rs,
                           temperature_summary = summarise temps,
                           humidity_summary = summarise hums\<rparr>))"

definition stats_error :: string where
  "stats_error = ''Error al obtener estad'' @ [CHR 0xED] @ ''sticas''"

definition stats_today :: "env \<Rightarrow> db \<Rightarrow> response \<times> db" where
  "stats_today E d =
     (let (res, d') = sb_select_since E (today E) d
      in if error res \<noteq> None then (json 500 (ErrorBody stats_error), d')
         else
           case data res of
             None \<Rightarrow> (json 500 (ErrorBody stats_error), d')
           | Some rs \<Rightarrow>
               (case today_stats (max_arguments E) rs of
                  Inl e \<Rightarrow> (json 500 (ErrorBody stats_error), d')
                | Inr st \<Rightarrow> (json 200 (StatsBody st), d')))"

section \<open>Notions of the specification and sample data\<close>

text \<open>
  A character that cannot continue a decimal literal, and a string that, after leading
  white space, is a decimal literal as a whole with the value \<open>v\<close>.
\<close>

definition non_numeric :: "char \<Rightarrow> bool" where
  "non_numeric c = (\<not> is_digit c \<and> c \<noteq> CHR ''.'' \<and> c \<noteq> CHR ''e'' \<and> c \<noteq> CHR ''E'')"

definition whole_literal :: "string \<Rightarrow> jsnum \<Rightarrow> bool" where
  "whole_literal p v = (scan_signed (dropWhile is_space p) = Some (v, []))"

text \<open>
  The value \<open>v\<close> is a string that starts with the decimal literal \<open>p\<close> of value \<open>x\<close>
  and goes on with the character \<open>c\<close>, which cannot continue it, and with \<open>junk\<close>.
\<close>

definition numeric_prefix :: "jsval \<Rightarrow> string \<Rightarrow> char \<Rightarrow> string \<Rightarrow> rat \<Rightarrow> bool" where
  "numeric_prefix v p c junk x =
     (v = JStr (p @ c # junk) \<and> whole_literal p (Fin x) \<and> non_numeric c)"

text \<open>Rounding to two decimal places, a tie going away from zero.\<close>

definition round2 :: "rat \<Rightarrow> rat" where
  "round2 q = sgn q * of_int \<lfloor>\<bar>q\<bar> * 100 + 1 / 2\<rfloor> / 100"

text \<open>
  The number that a decimal numeral denotes: an optional minus sign, digits, the dot,
  digits, and nothing else.
\<close>

definition decimal_value :: "string \<Rightarrow> rat option" where
  "decimal_value s =
     (let neg = (take 1 s = ''-'');
          t = (if neg then drop 1 s else s);
          ip = takeWhile is_digit t;
          r = dropWhile is_digit t
      in case r of
           [] \<Rightarrow> None
         | c # fs \<Rightarrow>
             if c = CHR ''.'' \<and> ip \<noteq> [] \<and> fs \<noteq> [] \<and> list_all is_digit fs then
               Some ((if neg then - 1 else 1)
                     * (of_nat (digits_val ip) + of_nat (digits_val fs) / 10 ^ length fs))
             else None)"

text \<open>The arithmetic mean as the handler computes it: summed from the left and divided.\<close>

definition mean64 :: "rat list \<Rightarrow> jsnum" where
  "mean64 ts = js_div (foldl js_add (Fin 0) (map Fin ts)) (Fin (of_nat (length ts)))"

text \<open>
  A process with the secret \<^verbatim>\<open>s3cret\<close> whose database works, and the same process
  with a database that cannot be reached.
\<close>

definition sample_env :: env where
  "sample_env =
     \<lparr>process_env = (\<lambda>k. if k = ''WEBHOOK_SECRET'' then Some ''s3cret'' else None),
      now_iso = ''2025-01-01T00:00:00.000Z'',
      today = 0,
      timestamptz_in = (\<lambda>c. Some 0),
      store_fault = None,
      other_limit = (\<lambda>rs. failed ''requested range not satisfiable''),
      max_arguments = 65535\<rparr>"

definition offline_env :: env where
  "offline_env = sample_env\<lparr>store_fault := Some ''fetch failed''\<rparr>"

text \<open>A push with the given header value and the two fields, and a query for a limit.\<close>

definition push :: "string option \<Rightarrow> jsval \<Rightarrow> jsval \<Rightarrow> request" where
  "push h t u =
     \<lparr>headers = (\<lambda>k. if k = ''x-webhook-secret'' then h else None),
      payload = Some (\<lambda>k. if k = ''temperature'' then t else if k = ''humidity'' then u else JUndefined),
      query = (\<lambda>k. QUndefined)\<rparr>"

definition ask :: "qsval \<Rightarrow> request" where
  "ask l =
     \<lparr>headers = (\<lambda>k. None),
      payload = None,
      query = (\<lambda>k. if k = ''limit'' then l else QUndefined)\<rparr>"

definition empty_db :: db where
  "empty_db = \<lparr>rows = [], calls = []\<rparr>"

definition row :: "rat \<Rightarrow> timestamp \<Rightarrow> reading" where
  "row x ts = \<lparr>temperature = JNum (Fin x), humidity = JNum (Fin 50), created_at = ts, source = ''thingspeak''\<rparr>"

text \<open>A row of the statistics query that holds the JSON numbers \<open>x\<close> and \<open>y\<close>.\<close>

definition measured :: "rat \<Rightarrow> rat \<Rightarrow> measurement" where
  "measured x y = \<lparr>temperature = JNum (r64 x), humidity = JNum (r64 y)\<rparr>"

text \<open>The readings a response carries: the data of a recent-readings answer, else none.\<close>

definition readings_in :: "response \<Rightarrow> reading list" where
  "readings_in r = (case body r of ReadingsBody c rs \<Rightarrow> rs | _ \<Rightarrow> [])"

section \<open>Reading a number from a string\<close>

lemmas scan_defs = parseFloat_str_def scan_signed_def scan_unsigned_def scan_exponent_def
  is_space_def is_digit_def digits_val_def digit_val_def scale10_def

lemma parseFloat_undefined: "parseFloat JUndefined = Inr NaN"
  by (simp add: scan_defs)

lemma takeWhile_stop: "\<not> P c \<Longrightarrow> takeWhile P (xs @ c # ys) = takeWhile P xs"
  by (induction xs) auto

lemma dropWhile_stop: "\<not> P c \<Longrightarrow> dropWhile P (xs @ c # ys) = dropWhile P xs @ c # ys"
  by (induction xs) auto

text \<open>
  A scanner that has read all of its input reads the same value from that input
  followed by a character that cannot continue the literal, and stops there.
\<close>

lemma scan_exponent_stop:
  assumes "snd (scan_exponent r) = []" and "non_numeric c"
  shows "scan_exponent (r @ c # rest) = (fst (scan_exponent r), c # rest)"
proof (cases r)
  case Nil
  with assms show ?thesis by (simp add: scan_exponent_def non_numeric_def)
next
  case (Cons x t)
  have nd: "\<not> is_digit c" using assms(2) by (simp add: non_numeric_def)
  show ?thesis
  proof (cases t)
    case Nil
    with Cons assms show ?thesis
      by (auto simp: scan_exponent_def non_numeric_def split: if_splits)
  next
    case (Cons y u)
    with \<open>r = x # t\<close> assms nd show ?thesis
      by (auto simp: scan_exponent_def Let_def takeWhile_stop dropWhile_stop split: if_splits)
  qed
qed

lemma scan_unsigned_stop:
  assumes "scan_unsigned p = Some (v, [])" and "non_numeric c"
  shows "scan_unsigned (p @ c # rest) = Some (v, c # rest)"
proof (cases "take 8 p = ''Infinity''")
  case True
  with assms(1) have "drop 8 p = []" and "v = PosInf" by (auto simp: scan_unsigned_def)
  with True have "p = ''Infinity''" by (metis append_take_drop_id append_Nil2)
  then show ?thesis using \<open>v = PosInf\<close> by (simp add: scan_unsigned_def)
next
  case False
  have nd: "\<not> is_digit c" and ndot: "c \<noteq> CHR ''.''"
    using assms(2) by (simp_all add: non_numeric_def)
  define ip where "ip = takeWhile is_digit p"
  define r1 where "r1 = dropWhile is_digit p"
  define dot where "dot = (case r1 of [] \<Rightarrow> False
                   | c # t \<Rightarrow> c = CHR ''.'' \<and> (ip \<noteq> [] \<or> takeWhile is_digit t \<noteq> []))"
  define fp where "fp = (if dot then takeWhile is_digit (tl r1) else [])"
  define r2 where "r2 = (if dot then dropWhile is_digit (tl r1) else r1)"
  have eq: "scan_unsigned p =
      (if ip = [] \<and> fp = [] then None
       else Some (r64 (scale10 (of_nat (digits_val ip) + of_nat (digits_val fp) / 10 ^ length fp)
                    (fst (scan_exponent r2))), snd (scan_exponent r2)))"
    using False unfolding scan_unsigned_def Let_def ip_def r1_def dot_def fp_def r2_def by simp
  have some: "\<not> (ip = [] \<and> fp = [])"
    and v: "v = r64 (scale10 (of_nat (digits_val ip) + of_nat (digits_val fp) / 10 ^ length fp)
                    (fst (scan_exponent r2)))"
    and e: "snd (scan_exponent r2) = []"
    using assms(1) unfolding eq by (auto split: if_splits)
  have p: "p = ip @ r1" by (simp add: ip_def r1_def)
  have hd: "p \<noteq> [] \<and> (is_digit (hd p) \<or> hd p = CHR ''.'')"
  proof (cases "ip = []")
    case True
    with some have "fp \<noteq> []" by simp
    then have dot by (simp add: fp_def split: if_splits)
    then have "r1 \<noteq> [] \<and> hd r1 = CHR ''.''" by (auto simp: dot_def split: list.splits)
    with True p show ?thesis by simp
  next
    case False
    then have "p \<noteq> []" using p by auto
    moreover have "is_digit (hd p)" using False unfolding ip_def
      by (cases p) (auto split: if_splits)
    ultimately show ?thesis by simp
  qed
  have noinf: "take 8 (p @ c # rest) \<noteq> ''Infinity''"
  proof
    assume "take 8 (p @ c # rest) = ''Infinity''"
    then have "hd p = CHR ''I''" using hd by (cases p) auto
    with hd show False by (auto simp: is_digit_def)
  qed
  have ip': "takeWhile is_digit (p @ c # rest) = ip"
    and r1': "dropWhile is_digit (p @ c # rest) = r1 @ c # rest"
    using nd by (simp_all add: takeWhile_stop dropWhile_stop ip_def r1_def)
  have dot': "(case r1 @ c # rest of [] \<Rightarrow> False
                   | c # t \<Rightarrow> c = CHR ''.'' \<and> (ip \<noteq> [] \<or> takeWhile is_digit t \<noteq> [])) = dot"
    using nd ndot by (cases r1) (auto simp: dot_def takeWhile_stop)
  have fp': "(if dot then takeWhile is_digit (tl (r1 @ c # rest)) else []) = fp"
    using nd by (cases r1) (auto simp: fp_def dot_def takeWhile_stop)
  have r2': "(if dot then dropWhile is_digit (tl (r1 @ c # rest)) else r1 @ c # rest) = r2 @ c # rest"
    using nd by (cases r1) (auto simp: r2_def dot_def dropWhile_stop)
  show ?thesis
    using noinf some v e scan_exponent_stop [OF e assms(2), of rest]
    by (simp add: scan_unsigned_def Let_def ip' r1' dot' fp' r2')
qed

lemma scan_signed_stop:
  assumes "scan_signed p = Some (v, [])" and "non_numeric c"
  shows "scan_signed (p @ c # rest) = Some (v, c # rest)"
proof (cases p)
  case Nil
  with assms show ?thesis by (simp add: scan_signed_def)
next
  case (Cons x t)
  show ?thesis
  proof (cases "x = CHR ''-''")
    case True
    with Cons assms(1) obtain w where w: "scan_unsigned t = Some (w, [])" and "v = js_neg w"
      by (auto simp: scan_signed_def)
    with True Cons scan_unsigned_stop [OF w assms(2), of rest] show ?thesis
      by (simp add: scan_signed_def)
  next
    case False
    show ?thesis
    proof (cases "x = CHR ''+''")
      case True
      with Cons assms(1) have w: "scan_unsigned t = Some (v, [])"
        by (auto simp: scan_signed_def)
      with True Cons scan_unsigned_stop [OF w assms(2), of rest] show ?thesis
        by (simp add: scan_signed_def)
    next
      case plus: False
      with False Cons assms(1) have w: "scan_unsigned p = Some (v, [])"
        by (auto simp: scan_signed_def)
      with plus False Cons scan_unsigned_stop [OF w assms(2), of rest] show ?thesis
        by (simp add: scan_signed_def)
    qed
  qed
qed

lemma parseFloat_str_stop:
  assumes "whole_literal p v" and "non_numeric c"
  shows "parseFloat_str (p @ c # rest) = v"
proof -
  have s: "scan_signed (dropWhile is_space p) = Some (v, [])"
    using assms(1) by (simp add: whole_literal_def)
  then have "dropWhile is_space p \<noteq> []"
    by (cases "dropWhile is_space p") (simp_all add: scan_signed_def)
  then obtain x where "x \<in> set p" and "\<not> is_space x"
    by (metis dropWhile_eq_Nil_conv)
  then have "dropWhile is_space (p @ c # rest) = dropWhile is_space p @ c # rest"
    by simp
  then show ?thesis
    using scan_signed_stop [OF s assms(2), of rest] by (simp add: parseFloat_str_def)
qed

lemma numeric_prefix_coerces:
  assumes "numeric_prefix v p c junk x \<or> parseFloat v = Inr (Fin x)"
  shows "parseFloat v = Inr (Fin x)"
  using assms parseFloat_str_stop by (auto simp: numeric_prefix_def)

section \<open>Printing a number with two decimals\<close>

lemma digits_val_snoc: "digits_val (xs @ [c]) = 10 * digits_val xs + digit_val c"
  by (simp add: digits_val_def)

lemma digit_char:
  assumes "d < 10"
  shows "is_digit (''0123456789'' ! d)" and "digit_val (''0123456789'' ! d) = d"
proof -
  from assms have "d \<in> {0,1,2,3,4,5,6,7,8,9}" by auto
  then show "is_digit (''0123456789'' ! d)" and "digit_val (''0123456789'' ! d) = d"
    by (auto simp: is_digit_def digit_val_def)
qed

lemma nat_digits_val: "digits_val (nat_digits n) = n"
proof (induction n rule: nat_digits.induct)
  case (1 n)
  show ?case
  proof (cases "n < 10")
    case True
    then show ?thesis
      by (simp add: nat_digits.simps [of n] digits_val_def digit_char)
  next
    case False
    with 1 show ?thesis
      by (simp add: nat_digits.simps [of n] digits_val_snoc digit_char)
  qed
qed

lemma nat_digits_digits: "list_all is_digit (nat_digits n)"
proof (induction n rule: nat_digits.induct)
  case (1 n)
  show ?case
  proof (cases "n < 10")
    case True
    then show ?thesis by (simp add: nat_digits.simps [of n] digit_char)
  next
    case False
    with 1 show ?thesis
      by (simp add: nat_digits.simps [of n] digit_char)
  qed
qed

lemma nat_digits_nonempty: "nat_digits n \<noteq> []"
  by (subst nat_digits.simps) simp

lemma digits_val_zeros: "digits_val (replicate z CHR ''0'' @ m) = digits_val m"
  by (induction z) (simp_all add: digits_val_def digit_val_def)

lemma digits_val_append:
  "digits_val (a @ b) = digits_val a * 10 ^ length b + digits_val b"
  by (induction b rule: rev_induct) (simp_all add: digits_val_snoc digits_val_def flip: append_assoc)

lemma takeWhile_all: "list_all P xs \<Longrightarrow> takeWhile P xs = xs"
  by (induction xs) auto

lemma dropWhile_all: "list_all P xs \<Longrightarrow> dropWhile P xs = []"
  by (induction xs) auto


lemma is_digit_not_sign: "is_digit x \<Longrightarrow> x \<noteq> CHR ''-'' \<and> x \<noteq> CHR ''+'' \<and> x \<noteq> CHR ''I'' \<and> \<not> is_space x"
  by (auto simp: is_digit_def is_space_def)

lemma decimal_value_plain:
  assumes "a \<noteq> []" and "list_all is_digit a" and "list_all is_digit b" and "b \<noteq> []"
  shows "decimal_value (a @ CHR ''.'' # b) =
           Some (of_nat (digits_val a) + of_nat (digits_val b) / 10 ^ length b)"
    and "decimal_value (CHR ''-'' # a @ CHR ''.'' # b) =
           Some (- (of_nat (digits_val a) + of_nat (digits_val b) / 10 ^ length b))"
proof -
  obtain x t where a: "a = x # t" and x: "is_digit x"
    using assms(1,2) by (cases a) auto
  have nd: "\<not> is_digit CHR ''.''" by (simp add: is_digit_def)
  have ip: "takeWhile is_digit (a @ CHR ''.'' # b) = a"
    and r1: "dropWhile is_digit (a @ CHR ''.'' # b) = CHR ''.'' # b"
    using nd assms(2) by (simp_all add: takeWhile_stop dropWhile_stop takeWhile_all dropWhile_all)
  have n: "take 1 (a @ CHR ''.'' # b) \<noteq> ''-''"
    using is_digit_not_sign [OF x] by (simp add: a)
  show "decimal_value (a @ CHR ''.'' # b) =
           Some (of_nat (digits_val a) + of_nat (digits_val b) / 10 ^ length b)"
    using n assms by (simp add: decimal_value_def Let_def ip r1)
  show "decimal_value (CHR ''-'' # a @ CHR ''.'' # b) =
           Some (- (of_nat (digits_val a) + of_nat (digits_val b) / 10 ^ length b))"
    using assms by (simp add: decimal_value_def Let_def ip r1)
qed

lemma toFixed2_reads_back:
  assumes "\<bar>q\<bar> < 10 ^ 21"
  shows "\<exists>s. toFixed (Fin q) 2 = Decimal s \<and> decimal_value s = Some (round2 q)"
proof -
  define n where "n = nat \<lfloor>\<bar>q\<bar> * 100 + 1 / 2\<rfloor>"
  define m where "m = (if n = 0 then ''0'' else nat_digits n)"
  define m' where "m' = (if length m \<le> 2 then replicate (3 - length m) CHR ''0'' @ m else m)"
  define a where "a = take (length m' - 2) m'"
  define b where "b = drop (length m' - 2) m'"
  have "list_all is_digit ''0''" and "digits_val ''0'' = 0"
    by (simp_all add: is_digit_def digits_val_def digit_val_def)
  then have m: "list_all is_digit m" "digits_val m = n"
    by (simp_all add: m_def nat_digits_digits nat_digits_val)
  have m'd: "list_all is_digit m'"
    using m(1) by (simp add: m'_def list_all_iff is_digit_def)
  have m'v: "digits_val m' = n"
    using m(2) by (simp add: m'_def digits_val_zeros)
  have k: "3 \<le> length m'" by (simp add: m'_def)
  have ab: "m' = a @ b" and lb: "length b = 2" and an: "a \<noteq> []"
    using k by (auto simp: a_def b_def)
  have bn: "b \<noteq> []" using lb by auto
  have ad: "list_all is_digit a" and bd: "list_all is_digit b"
    using m'd unfolding ab by simp_all
  have val: "(of_nat (digits_val a) + of_nat (digits_val b) / 10 ^ length b :: rat) = of_nat n / 100"
  proof -
    have "n = digits_val a * 100 + digits_val b"
      using m'v digits_val_append [of a b] by (simp add: ab lb)
    then show ?thesis by (simp add: lb add_divide_distrib)
  qed
  have fl: "0 \<le> \<lfloor>\<bar>q\<bar> * 100 + 1 / 2\<rfloor>" by simp
  have r: "round2 q = sgn q * of_nat n / 100"
    using fl by (simp add: round2_def n_def)
  have tf: "toFixed (Fin q) 2 = Decimal ((if q < 0 then ''-'' else []) @ a @ CHR ''.'' # b)"
    using assms by (simp add: toFixed_def Let_def a_def b_def m'_def m_def n_def)
  show ?thesis
  proof (cases "q < 0")
    case True
    then show ?thesis
      using tf decimal_value_plain(2) [OF an ad bd bn] val r by (simp add: sgn_if)
  next
    case False
    then have "q = 0 \<longrightarrow> n = 0" by (auto simp: n_def)
    then show ?thesis
      using False tf decimal_value_plain(1) [OF an ad bd bn] val r by (auto simp: sgn_if)
  qed
qed

lemma round2_close: "\<bar>round2 q - q\<bar> \<le> 1 / 200"
proof -
  define f where "f = \<lfloor>\<bar>q\<bar> * 100 + 1 / 2\<rfloor>"
  have lo: "of_int f \<le> \<bar>q\<bar> * 100 + 1 / 2" and hi: "\<bar>q\<bar> * 100 + 1 / 2 < of_int f + 1"
    unfolding f_def by linarith+
  have "\<bar>of_int f / 100 - \<bar>q\<bar>\<bar> \<le> 1 / 200"
  proof (rule abs_leI)
    show "of_int f / 100 - \<bar>q\<bar> \<le> 1 / 200" using lo by linarith
    show "- (of_int f / 100 - \<bar>q\<bar>) \<le> 1 / 200" using hi by linarith
  qed
  moreover have "\<bar>round2 q - q\<bar> = \<bar>of_int f / 100 - \<bar>q\<bar>\<bar>"
  proof -
    have half: "\<lfloor>(1 :: rat) / 2\<rfloor> = 0" by (rule floor_unique) simp_all
    show ?thesis
      by (cases "q < 0"; cases "q = 0") (simp_all add: round2_def f_def sgn_if abs_if half)
  qed
  ultimately show ?thesis by simp
qed

section \<open>Extrema and sums of finite numbers\<close>

lemma foldl_lowest:
  "foldl (\<lambda>lowest n. if js_lt n lowest then n else lowest) (Fin a) (map Fin ts) = Fin (fold min ts a)"
  by (induction ts arbitrary: a) (auto simp: min_def)

lemma foldl_highest:
  "foldl (\<lambda>highest n. if js_lt highest n then n else highest) (Fin a) (map Fin ts) = Fin (fold max ts a)"
  by (induction ts arbitrary: a) (auto simp: max_def)

lemma Math_min_finite:
  assumes "ts \<noteq> []"
  shows "Math_min (map Fin ts) = Fin (Min (set ts))"
proof -
  obtain a list where ts: "ts = a # list" using assms by (cases ts) auto
  have m: "Min (insert a (set list)) = fold min list a"
    using Min.set_eq_fold [of a list] by simp
  show ?thesis by (auto simp: ts Math_min_def foldl_lowest m)
qed

lemma Math_max_finite:
  assumes "ts \<noteq> []"
  shows "Math_max (map Fin ts) = Fin (Max (set ts))"
proof -
  obtain a list where ts: "ts = a # list" using assms by (cases ts) auto
  have m: "Max (insert a (set list)) = fold max list a"
    using Max.set_eq_fold [of a list] by simp
  show ?thesis by (auto simp: ts Math_max_def js_gt_def foldl_highest m)
qed

section \<open>Sums and means in binary64\<close>

lemma round_half_even_le:
  assumes "x \<le> of_int M"
  shows "round_half_even x \<le> M"
proof -
  have f: "\<lfloor>x\<rfloor> \<le> M" using assms by (simp add: floor_le_iff)
  show ?thesis
  proof (cases "\<lfloor>x\<rfloor> = M")
    case True
    then have "x - of_int \<lfloor>x\<rfloor> \<le> 0" using assms by simp
    then show ?thesis using True by (simp add: round_half_even_def Let_def)
  next
    case False
    with f have "\<lfloor>x\<rfloor> + 1 \<le> M" by simp
    then show ?thesis using f by (simp add: round_half_even_def Let_def)
  qed
qed

lemma round_half_even_nonneg:
  assumes "0 \<le> x"
  shows "0 \<le> round_half_even x"
proof -
  have "0 \<le> \<lfloor>x\<rfloor>" using assms by simp
  then show ?thesis by (simp add: round_half_even_def Let_def)
qed

lemma floor_log2_le:
  assumes "0 < a"
  shows "2 powi (floor_log2 a) \<le> a"
proof (cases "1 \<le> a")
  case True
  then have p: "0 < \<lfloor>a\<rfloor>" by simp
  then have b: "1 \<le> bitlen \<lfloor>a\<rfloor>" by (simp add: bitlen_alt_def)
  have "(2 :: int) ^ nat (bitlen \<lfloor>a\<rfloor> - 1) \<le> \<lfloor>a\<rfloor>"
    using bitlen_bounds [OF p] by simp
  then have "(of_int (2 ^ nat (bitlen \<lfloor>a\<rfloor> - 1)) :: rat) \<le> of_int \<lfloor>a\<rfloor>"
    by (simp only: of_int_le_iff)
  also have "\<dots> \<le> a" by simp
  finally show ?thesis using True b by (simp add: floor_log2_def power_int_def)
next
  case False
  with assms have i: "1 < 1 / a" by simp
  define m where "m = \<lceil>1 / a\<rceil> - 1"
  have p: "0 < m" using i unfolding m_def by (simp add: less_ceiling_iff)
  have "1 / a \<le> of_int (m + 1)" unfolding m_def by simp
  also have "m + 1 \<le> 2 ^ nat (bitlen m)" using bitlen_bounds [OF p] by simp
  then have "(of_int (m + 1) :: rat) \<le> of_int (2 ^ nat (bitlen m))" by (simp only: of_int_le_iff)
  finally have "1 / a \<le> 2 ^ nat (bitlen m)" by simp
  then have "1 / 2 ^ nat (bitlen m) \<le> a"
    using assms by (simp add: field_simps)
  moreover have "1 \<le> bitlen m" using p by (simp add: bitlen_alt_def)
  ultimately show ?thesis
    using False by (simp add: floor_log2_def m_def power_int_def inverse_eq_divide power_one_over)
qed


lemma scale2_up: "0 \<le> k \<Longrightarrow> scale2 x k = x * of_int (2 ^ nat k)"
  by (simp add: scale2_def)

lemma scale2_down: "0 \<le> k \<Longrightarrow> scale2 x (- k) = x / of_int (2 ^ nat k)"
  by (cases "k = 0") (simp_all add: scale2_def)

text \<open>Rounding does not leave an interval whose bound is an integer below \<open>2^53\<close>.\<close>

lemma r64_bounded:
  assumes "\<bar>q\<bar> \<le> of_nat N" and "N < 2 ^ 53"
  shows "\<exists>q'. r64 q = Fin q' \<and> \<bar>q'\<bar> \<le> of_nat N"
proof (cases "q = 0")
  case True
  then show ?thesis by (simp add: r64_def)
next
  case False
  define a where "a = \<bar>q\<bar>"
  define e where "e = max (floor_log2 a) (- 1022)"
  define k where "k = 52 - e"
  define n where "n = round_half_even (scale2 a k)"
  define v where "v = scale2 (of_int n) (- k)"
  have a: "0 < a" and aN: "a \<le> of_nat N" using False assms(1) by (simp_all add: a_def)
  have "2 powi (floor_log2 a) \<le> a" by (rule floor_log2_le [OF a])
  also have "a \<le> of_nat N" by (rule aN)
  also have "(of_nat N :: rat) < of_nat (2 ^ 53)" using assms(2) by (simp only: of_nat_less_iff)
  finally have "(2 :: rat) powi (floor_log2 a) < 2 powi 53" by simp
  then have "floor_log2 a < 53" by (rule power_int_le_imp_less_exp [rotated]) simp_all
  then have k: "0 \<le> k" by (simp add: k_def e_def)
  define M where "M = int N * 2 ^ nat k"
  have "scale2 a k \<le> of_int M"
    using aN by (simp add: scale2_up [OF k] M_def mult_right_mono)
  then have nM: "n \<le> M" unfolding n_def by (rule round_half_even_le)
  have "0 \<le> scale2 a k" using a by (simp add: scale2_up [OF k])
  then have n0: "0 \<le> n" unfolding n_def by (rule round_half_even_nonneg)
  have v: "v = of_int n / of_int (2 ^ nat k)" by (simp add: v_def scale2_down [OF k])
  have v0: "0 \<le> v" using n0 by (simp add: v)
  have "v \<le> of_int M / of_int (2 ^ nat k)"
    unfolding v using nM by (simp add: divide_right_mono)
  then have vN: "v \<le> of_nat N" by (simp add: M_def)
  have "(of_nat N :: rat) < of_nat (2 ^ 53)" using assms(2) by (simp only: of_nat_less_iff)
  also have "(of_nat (2 ^ 53) :: rat) \<le> of_int (2 ^ 1024)" by simp
  finally have big: "\<not> of_int (2 ^ 1024) \<le> v" using vN by simp
  have "r64 q = Fin (if q < 0 then - v else v)"
    using False big unfolding v_def n_def k_def e_def a_def r64_def Let_def by simp
  then show ?thesis using v0 vN by auto
qed

lemma foldl_js_add_bounded:
  assumes "\<forall>x \<in> set ts. \<bar>x\<bar> \<le> 100"
    and "\<bar>a\<bar> \<le> of_nat (100 * i)"
    and "100 * (i + length ts) < 2 ^ 53"
  shows "\<exists>s. foldl js_add (Fin a) (map Fin ts) = Fin s \<and> \<bar>s\<bar> \<le> of_nat (100 * (i + length ts))"
  using assms
proof (induction ts arbitrary: a i)
  case Nil
  then show ?case by simp
next
  case (Cons x ts)
  have "\<bar>a + x\<bar> \<le> \<bar>a\<bar> + \<bar>x\<bar>" by (rule abs_triangle_ineq)
  also have "\<dots> \<le> of_nat (100 * i) + 100" using Cons.prems(1,2) by simp
  finally have b: "\<bar>a + x\<bar> \<le> of_nat (100 * Suc i)" by simp
  have "100 * Suc i < (2 :: nat) ^ 53" using Cons.prems(3) by simp
  from r64_bounded [OF b this] obtain a' where a': "r64 (a + x) = Fin a'"
    and b': "\<bar>a'\<bar> \<le> of_nat (100 * Suc i)" by blast
  have "\<exists>s. foldl js_add (Fin a') (map Fin ts) = Fin s
          \<and> \<bar>s\<bar> \<le> of_nat (100 * (Suc i + length ts))"
    using Cons.prems(1,3) by (intro Cons.IH [OF _ b']) simp_all
  then show ?case by (simp add: a')
qed

text \<open>
  The mean of at most \<open>2^32\<close> numbers between -100 and 100, as the handler computes it, is
  a finite number between -100 and 100.
\<close>

lemma mean64_bounded:
  assumes "ts \<noteq> []" and "\<forall>x \<in> set ts. \<bar>x\<bar> \<le> 100" and "length ts < 2 ^ 32"
  shows "\<exists>m. mean64 ts = Fin m \<and> \<bar>m\<bar> \<le> 100"
proof -
  have "100 * (0 + length ts) < 100 * (2 :: nat) ^ 32" using assms(3) by simp
  also have "\<dots> < 2 ^ 53" by simp
  finally have l: "100 * (0 + length ts) < (2 :: nat) ^ 53" .
  from foldl_js_add_bounded [OF assms(2) _ l, of 0]
  obtain s where s: "foldl js_add (Fin 0) (map Fin ts) = Fin s"
    and b: "\<bar>s\<bar> \<le> of_nat (100 * length ts)" by auto
  have n: "(0 :: rat) < of_nat (length ts)" using assms(1) by simp
  have "\<bar>s\<bar> / of_nat (length ts) \<le> 100"
    using b n by (simp add: divide_le_eq)
  then have "\<bar>s / of_nat (length ts)\<bar> \<le> of_nat 100"
    using n by (simp add: abs_divide)
  from r64_bounded [OF this] obtain m where "r64 (s / of_nat (length ts)) = Fin m"
    and "\<bar>m\<bar> \<le> of_nat 100" by auto
  then show ?thesis using n by (auto simp: mean64_def s)
qed

lemma summarise_finite:
  assumes "ts \<noteq> []" and "mean64 ts = Fin m" and "\<bar>m\<bar> < 10 ^ 21"
  shows "min_val (summarise (map Fin ts)) = Some (Fin (Min (set ts)))"
    and "max_val (summarise (map Fin ts)) = Some (Fin (Max (set ts)))"
    and "avg_val (summarise (map Fin ts)) = Some (toFixed (mean64 ts) 2)"
    and "\<exists>s. avg_val (summarise (map Fin ts)) = Some (Decimal s)
             \<and> decimal_value s = Some (round2 m)"
  using assms toFixed2_reads_back [OF assms(3)]
  by (simp_all add: summarise_def Math_min_finite Math_max_finite mean64_def)

lemma collect_values: "collect (map (\<lambda>x. Inr (f x)) xs) = Inr (map f xs)"
  by (induction xs) simp_all

section \<open>Sample values\<close>

lemma r64_samples:
  "r64 (1 / 2) = Fin (1 / 2)" "r64 2 = Fin 2" "r64 20 = Fin 20" "r64 21 = Fin 21"
  "r64 25 = Fin 25" "r64 30 = Fin 30" "r64 40 = Fin 40" "r64 41 = Fin 41" "r64 50 = Fin 50"
  "r64 61 = Fin 61" "r64 150 = Fin 150" "r64 5000 = Fin 5000" "r64 (47 / 2) = Fin (47 / 2)"
  "r64 (81 / 2) = Fin (81 / 2)"
  by code_simp+

lemma parseInt_undefined: "parseInt QUndefined = Inr NaN"
  by (simp add: parseInt_str_def is_space_def is_digit_def)

text \<open>
  A literal with more digits than binary64 holds reads as the nearest binary64 value:
  \<^verbatim>\<open>100.00000000000000001\<close> is 100.
\<close>

lemma literal_rounded:
  "parseFloat (JStr ''100.00000000000000001'') = Inr (Fin 100)"
  by code_simp

section \<open>The ingestion endpoint: lemmas\<close>

text \<open>What the handler does once the guard, the presence check and the coercion have passed.\<close>

lemma authorized_unfold:
  assumes "headers req ''x-webhook-secret'' = process_env E ''WEBHOOK_SECRET''"
    and "payload req = Some b"
    and "b ''temperature'' \<noteq> JUndefined" and "b ''humidity'' \<noteq> JUndefined"
    and "parseFloat (b ''temperature'') = Inr temp" and "parseFloat (b ''humidity'') = Inr hum"
  shows "webhook_thingspeak E req d =
    (if isNaN temp \<or> isNaN hum \<or> js_lt temp (Fin (- 50)) \<or> js_gt temp (Fin 100)
                        \<or> js_lt hum (Fin 0) \<or> js_gt hum (Fin 100) then
                       (json 400 (ErrorBody ''Valores fuera de rango''), d)
        else let (res, d') = sb_insert E temp hum
                              (if truthy (b ''created_at'') then b ''created_at'' else JStr (now_iso E))
                              ''thingspeak'' d
                       in if error res \<noteq> None then
                            (json 500 (ErrorBody ''Error al guardar datos''), d')
                          else
                            case data res of
                              None \<Rightarrow> (json 500 (ErrorBody ''Error interno del servidor''), d')
                            | Some rs \<Rightarrow>
                                (json 201
                                   (SavedBody (case rs of [] \<Rightarrow> None | r # rs' \<Rightarrow> Some r)
                                      ''Datos guardados correctamente''), d'))"
  using assms by (simp add: webhook_thingspeak_def Let_def)

lemma insert_accepted:
  assumes "store_fault E = None" and "timestamptz_in E c = Some ts"
  shows "sb_insert E t h c src d =
     (returned [\<lparr>temperature = JNum t, humidity = JNum h, created_at = ts, source = src\<rparr>],
      \<lparr>rows = rows d @ [\<lparr>temperature = JNum t, humidity = JNum h, created_at = ts, source = src\<rparr>],
       calls = calls d @ [Insert t h c src]\<rparr>)"
  using assms by (simp add: sb_insert_def Let_def)

lemma insert_refused:
  assumes "store_fault E \<noteq> None \<or> timestamptz_in E c = None"
  shows "\<exists>err. sb_insert E t h c src d =
     (failed err, \<lparr>rows = rows d, calls = calls d @ [Insert t h c src]\<rparr>)"
  using assms by (auto simp: sb_insert_def Let_def split: option.splits)

lemma coerced_accepted:
  assumes "headers req ''x-webhook-secret'' = process_env E ''WEBHOOK_SECRET''"
    and "payload req = Some b"
    and "parseFloat (b ''temperature'') = Inr (Fin x)" and "- 50 \<le> x" and "x \<le> 100"
    and "parseFloat (b ''humidity'') = Inr (Fin y)" and "0 \<le> y" and "y \<le> 100"
    and "store_fault E = None"
    and "timestamptz_in E (if truthy (b ''created_at'') then b ''created_at'' else JStr (now_iso E)) = Some ts"
    and "r = \<lparr>temperature = JNum (Fin x), humidity = JNum (Fin y), created_at = ts, source = ''thingspeak''\<rparr>"
  shows "webhook_thingspeak E req d =
           (json 201 (SavedBody (Some r) ''Datos guardados correctamente''),
            \<lparr>rows = rows d @ [r],
             calls = calls d @ [Insert (Fin x) (Fin y)
               (if truthy (b ''created_at'') then b ''created_at'' else JStr (now_iso E)) ''thingspeak'']\<rparr>)"
proof -
  have t: "b ''temperature'' \<noteq> JUndefined" and h: "b ''humidity'' \<noteq> JUndefined"
    using assms(3,6) parseFloat_undefined by auto
  show ?thesis
    using assms(4,5,7,8,11)
    by (simp add: authorized_unfold [OF assms(1,2) t h assms(3,6)] isNaN_def js_gt_def
        insert_accepted [OF assms(9,10)] returned_def Let_def)
qed

lemma coerced_refused:
  assumes "headers req ''x-webhook-secret'' = process_env E ''WEBHOOK_SECRET''"
    and "payload req = Some b"
    and "parseFloat (b ''temperature'') = Inr (Fin x)" and "- 50 \<le> x" and "x \<le> 100"
    and "parseFloat (b ''humidity'') = Inr (Fin y)" and "0 \<le> y" and "y \<le> 100"
    and "store_fault E \<noteq> None
         \<or> timestamptz_in E (if truthy (b ''created_at'') then b ''created_at'' else JStr (now_iso E)) = None"
  shows "webhook_thingspeak E req d =
           (json 500 (ErrorBody ''Error al guardar datos''),
            \<lparr>rows = rows d,
             calls = calls d @ [Insert (Fin x) (Fin y)
               (if truthy (b ''created_at'') then b ''created_at'' else JStr (now_iso E)) ''thingspeak'']\<rparr>)"
proof -
  have t: "b ''temperature'' \<noteq> JUndefined" and h: "b ''humidity'' \<noteq> JUndefined"
    using assms(3,6) parseFloat_undefined by auto
  from insert_refused [OF assms(9)] obtain err where
    "sb_insert E (Fin x) (Fin y)
       (if truthy (b ''created_at'') then b ''created_at'' else JStr (now_iso E)) ''thingspeak'' d =
     (failed err, \<lparr>rows = rows d, calls = calls d @ [Insert (Fin x) (Fin y)
               (if truthy (b ''created_at'') then b ''created_at'' else JStr (now_iso E)) ''thingspeak'']\<rparr>)"
    by blast
  then show ?thesis
    using assms(4,5,7,8)
    by (simp add: authorized_unfold [OF assms(1,2) t h assms(3,6)] isNaN_def js_gt_def
        failed_def Let_def)
qed

section \<open>The credential guard\<close>

text \<open>
  Claim C1. With a secret configured, every push whose \<^verbatim>\<open>x-webhook-secret\<close> header is
  missing or is not that secret is answered 401 with the body \<^verbatim>\<open>{error: 'Unauthorized'}\<close>,
  whatever the payload, and the table is left as it was: no row is added and no request
  is sent to it.
\<close>

theorem unauthorized_401_store_untouched:
  assumes "process_env E ''WEBHOOK_SECRET'' = Some s"
    and "headers req ''x-webhook-secret'' = None \<or> headers req ''x-webhook-secret'' \<noteq> Some s"
  shows "webhook_thingspeak E req d = (json 401 (ErrorBody ''Unauthorized''), d)"
  using assms by (auto simp: webhook_thingspeak_def)

text \<open>
  The theorem at a push without the header that carries a valid payload, and at a push
  with a wrong secret that carries an invalid one.
\<close>

theorem unauthorized_401_witness:
  "process_env sample_env ''WEBHOOK_SECRET'' = Some ''s3cret''
   \<and> headers (push None (JNum (Fin (47 / 2))) (JNum (Fin 61))) ''x-webhook-secret'' = None
   \<and> webhook_thingspeak sample_env (push None (JNum (Fin (47 / 2))) (JNum (Fin 61))) empty_db
       = (json 401 (ErrorBody ''Unauthorized''), empty_db)
   \<and> webhook_thingspeak sample_env (push (Some ''guess'') (JStr ''abc'') JUndefined) empty_db
       = (json 401 (ErrorBody ''Unauthorized''), empty_db)"
  using unauthorized_401_store_untouched [of sample_env "''s3cret''"
      "push None (JNum (Fin (47 / 2))) (JNum (Fin 61))" empty_db]
    unauthorized_401_store_untouched [of sample_env "''s3cret''"
      "push (Some ''guess'') (JStr ''abc'') JUndefined" empty_db]
  by (simp add: sample_env_def push_def)

text \<open>
  The guard compares the header with \<^verbatim>\<open>process.env.WEBHOOK_SECRET\<close> as it is: in a
  process started without that variable both sides are undefined for a push without
  the header, and the push goes on to validation.
\<close>

lemma no_secret_configured:
  "webhook_thingspeak (sample_env\<lparr>process_env := (\<lambda>k. None)\<rparr>)
     (push None (JNum (Fin (47 / 2))) (JNum (Fin 61))) empty_db =
     (json 201 (SavedBody (Some \<lparr>temperature = JNum (Fin (47 / 2)), humidity = JNum (Fin 61),
                                   created_at = 0, source = ''thingspeak''\<rparr>)
        ''Datos guardados correctamente''),
      \<lparr>rows = [\<lparr>temperature = JNum (Fin (47 / 2)), humidity = JNum (Fin 61),
                 created_at = 0, source = ''thingspeak''\<rparr>],
       calls = [Insert (Fin (47 / 2)) (Fin 61) (JStr ''2025-01-01T00:00:00.000Z'') ''thingspeak'']\<rparr>)"
  by (simp add: webhook_thingspeak_def sample_env_def push_def empty_db_def
      isNaN_def js_gt_def sb_insert_def returned_def Let_def)

section \<open>Accepted pushes\<close>

text \<open>
  Claim C2, as amended. For every push with the correct secret whose temperature coerces
  to a finite number in [-50, 100] and whose humidity coerces to a finite number in
  [0, 100]: when the store accepts the insert (the call does not fail and the database
  reads the \<^verbatim>\<open>created_at\<close> value as an instant), the answer is 201 with the stored row,
  and the table has exactly one new row, at the end, whose temperature and humidity are the
  coerced numbers; when the insert returns an error, the answer is 500 and the table has no
  new row.
\<close>

theorem valid_push_201:
  assumes "process_env E ''WEBHOOK_SECRET'' = Some s"
    and "headers req ''x-webhook-secret'' = Some s"
    and "payload req = Some b"
    and "parseFloat (b ''temperature'') = Inr (Fin x)" and "- 50 \<le> x" and "x \<le> 100"
    and "parseFloat (b ''humidity'') = Inr (Fin y)" and "0 \<le> y" and "y \<le> 100"
    and "c = (if truthy (b ''created_at'') then b ''created_at'' else JStr (now_iso E))"
    and "r = \<lparr>temperature = JNum (Fin x), humidity = JNum (Fin y), created_at = ts, source = ''thingspeak''\<rparr>"
  shows "(store_fault E = None \<and> timestamptz_in E c = Some ts \<longrightarrow>
            webhook_thingspeak E req d =
              (json 201 (SavedBody (Some r) ''Datos guardados correctamente''),
               \<lparr>rows = rows d @ [r],
                calls = calls d @ [Insert (Fin x) (Fin y) c ''thingspeak'']\<rparr>))
       \<and> (store_fault E \<noteq> None \<or> timestamptz_in E c = None \<longrightarrow>
            webhook_thingspeak E req d =
              (json 500 (ErrorBody ''Error al guardar datos''),
               \<lparr>rows = rows d,
                calls = calls d @ [Insert (Fin x) (Fin y) c ''thingspeak'']\<rparr>))"
proof -
  have a: "headers req ''x-webhook-secret'' = process_env E ''WEBHOOK_SECRET''"
    using assms(1,2) by simp
  show ?thesis
    unfolding assms(10)
    using coerced_accepted [OF a assms(3-9) _ _ assms(11)] coerced_refused [OF a assms(3-9)]
    by blast
qed

text \<open>
  The theorem at the push \<^verbatim>\<open>{temperature: 23.5, humidity: "61"}\<close>, with the database at
  work and with the database out of reach.
\<close>

theorem valid_push_201_witness:
  "webhook_thingspeak sample_env (push (Some ''s3cret'') (JNum (Fin (47 / 2))) (JStr ''61'')) empty_db =
     (json 201 (SavedBody (Some \<lparr>temperature = JNum (Fin (47 / 2)), humidity = JNum (Fin 61),
                                   created_at = 0, source = ''thingspeak''\<rparr>)
        ''Datos guardados correctamente''),
      \<lparr>rows = [\<lparr>temperature = JNum (Fin (47 / 2)), humidity = JNum (Fin 61),
                 created_at = 0, source = ''thingspeak''\<rparr>],
       calls = [Insert (Fin (47 / 2)) (Fin 61) (JStr ''2025-01-01T00:00:00.000Z'') ''thingspeak'']\<rparr>)
   \<and> webhook_thingspeak offline_env (push (Some ''s3cret'') (JNum (Fin (47 / 2))) (JStr ''61'')) empty_db =
     (json 500 (ErrorBody ''Error al guardar datos''),
      \<lparr>rows = [],
       calls = [Insert (Fin (47 / 2)) (Fin 61) (JStr ''2025-01-01T00:00:00.000Z'') ''thingspeak'']\<rparr>)"
  using valid_push_201 [of sample_env "''s3cret''" "push (Some ''s3cret'') (JNum (Fin (47 / 2))) (JStr ''61'')"
      "(\<lambda>k. if k = ''temperature'' then JNum (Fin (47 / 2)) else if k = ''humidity'' then JStr ''61'' else JUndefined)"
      "47 / 2" 61 _ _ 0 empty_db]
    valid_push_201 [of offline_env "''s3cret''" "push (Some ''s3cret'') (JNum (Fin (47 / 2))) (JStr ''61'')"
      "(\<lambda>k. if k = ''temperature'' then JNum (Fin (47 / 2)) else if k = ''humidity'' then JStr ''61'' else JUndefined)"
      "47 / 2" 61 _ _ 0 empty_db]
  by (simp add: sample_env_def offline_env_def push_def empty_db_def scan_defs r64_samples)

text \<open>
  The claim as it was stated fails when the store does not accept the insert: the push
  \<^verbatim>\<open>{temperature: 23.5, humidity: 61}\<close> with the correct secret, sent while the database
  cannot be reached, is answered 500 and no row is added.
\<close>

theorem valid_push_store_failure_500:
  "headers (push (Some ''s3cret'') (JNum (Fin (47 / 2))) (JNum (Fin 61))) ''x-webhook-secret''
     = process_env offline_env ''WEBHOOK_SECRET''
   \<and> parseFloat (JNum (Fin (47 / 2))) = Inr (Fin (47 / 2)) \<and> (- 50 :: rat) \<le> 47 / 2 \<and> (47 / 2 :: rat) \<le> 100
   \<and> parseFloat (JNum (Fin 61)) = Inr (Fin 61) \<and> (0 :: rat) \<le> 61 \<and> (61 :: rat) \<le> 100
   \<and> webhook_thingspeak offline_env (push (Some ''s3cret'') (JNum (Fin (47 / 2))) (JNum (Fin 61))) empty_db
       = (json 500 (ErrorBody ''Error al guardar datos''),
          \<lparr>rows = [], calls = [Insert (Fin (47 / 2)) (Fin 61) (JStr ''2025-01-01T00:00:00.000Z'') ''thingspeak'']\<rparr>)"
  by (simp add: webhook_thingspeak_def offline_env_def sample_env_def push_def empty_db_def
      isNaN_def js_gt_def sb_insert_def failed_def json_def Let_def)

section \<open>Rejected pushes\<close>

text \<open>
  Claim C3. For every push with the correct secret whose two fields both coerce to a
  number (not \<open>NaN\<close>), if the temperature is below -50 or above 100, or the humidity is
  below 0 or above 100, the answer is 400 and the table is left as it was: no row is added
  and no request is sent to it.
\<close>

theorem out_of_range_400:
  assumes "process_env E ''WEBHOOK_SECRET'' = Some s"
    and "headers req ''x-webhook-secret'' = Some s"
    and "payload req = Some b"
    and "parseFloat (b ''temperature'') = Inr x" and "\<not> isNaN x"
    and "parseFloat (b ''humidity'') = Inr y" and "\<not> isNaN y"
    and "js_lt x (Fin (- 50)) \<or> js_gt x (Fin 100) \<or> js_lt y (Fin 0) \<or> js_gt y (Fin 100)"
  shows "webhook_thingspeak E req d = (json 400 (ErrorBody ''Valores fuera de rango''), d)"
proof -
  have t: "b ''temperature'' \<noteq> JUndefined" and h: "b ''humidity'' \<noteq> JUndefined"
    using assms(4-7) parseFloat_undefined by (auto simp: isNaN_def)
  have a: "headers req ''x-webhook-secret'' = process_env E ''WEBHOOK_SECRET''"
    using assms(1,2) by simp
  show ?thesis
    using assms(5,7,8) by (auto simp: authorized_unfold [OF a assms(3) t h assms(4,6)] Let_def)
qed

text \<open>The theorem at a temperature of 150 and at a humidity of \<^verbatim>\<open>"-0.5"\<close>.\<close>

theorem out_of_range_400_witness:
  "webhook_thingspeak sample_env (push (Some ''s3cret'') (JNum (Fin 150)) (JNum (Fin 50))) empty_db
     = (json 400 (ErrorBody ''Valores fuera de rango''), empty_db)
   \<and> webhook_thingspeak sample_env (push (Some ''s3cret'') (JNum (Fin 20)) (JStr ''-0.5'')) empty_db
     = (json 400 (ErrorBody ''Valores fuera de rango''), empty_db)"
  using out_of_range_400 [of sample_env "''s3cret''" "push (Some ''s3cret'') (JNum (Fin 150)) (JNum (Fin 50))"
      "(\<lambda>k. if k = ''temperature'' then JNum (Fin 150) else if k = ''humidity'' then JNum (Fin 50) else JUndefined)"
      "Fin 150" "Fin 50" empty_db]
    out_of_range_400 [of sample_env "''s3cret''" "push (Some ''s3cret'') (JNum (Fin 20)) (JStr ''-0.5'')"
      "(\<lambda>k. if k = ''temperature'' then JNum (Fin 20) else if k = ''humidity'' then JStr ''-0.5'' else JUndefined)"
      "Fin 20" "Fin (- 1 / 2)" empty_db]
  by (simp add: sample_env_def push_def isNaN_def js_gt_def scan_defs r64_samples)

section \<open>The order of the checks\<close>

text \<open>
  Claim C4, as amended. For every push with the correct secret that carries a payload,
  the validator checks presence first: when \<^verbatim>\<open>temperature\<close> or \<^verbatim>\<open>humidity\<close> is absent
  the answer is 400 \<^verbatim>\<open>Faltan campos requeridos\<close>. A payload with both fields is then
  coerced: when a field is an object whose conversion to a string throws, the answer is 500
  \<^verbatim>\<open>Error interno del servidor\<close>. The coerced numbers are put to one combined check:
  when one is \<open>NaN\<close> or out of range the answer is 400 \<^verbatim>\<open>Valores fuera de rango\<close>, the same
  for both reasons. Each of these answers leaves the table as it was, with no request sent
  to it. A payload that passes all checks reaches the store: the insert is sent.
\<close>

theorem validation_order:
  assumes "process_env E ''WEBHOOK_SECRET'' = Some s"
    and "headers req ''x-webhook-secret'' = Some s"
    and "payload req = Some b"
  shows "(b ''temperature'' = JUndefined \<or> b ''humidity'' = JUndefined \<longrightarrow>
            webhook_thingspeak E req d = (json 400 (ErrorBody ''Faltan campos requeridos''), d))
       \<and> (b ''temperature'' \<noteq> JUndefined \<and> b ''humidity'' \<noteq> JUndefined
            \<and> (isl (parseFloat (b ''temperature'')) \<or> isl (parseFloat (b ''humidity''))) \<longrightarrow>
            webhook_thingspeak E req d = (json 500 (ErrorBody ''Error interno del servidor''), d))
       \<and> (b ''temperature'' \<noteq> JUndefined \<and> b ''humidity'' \<noteq> JUndefined
            \<and> parseFloat (b ''temperature'') = Inr temp \<and> parseFloat (b ''humidity'') = Inr hum
            \<and> (isNaN temp \<or> isNaN hum \<or> js_lt temp (Fin (- 50)) \<or> js_gt temp (Fin 100)
                 \<or> js_lt hum (Fin 0) \<or> js_gt hum (Fin 100)) \<longrightarrow>
            webhook_thingspeak E req d = (json 400 (ErrorBody ''Valores fuera de rango''), d))
       \<and> (b ''temperature'' \<noteq> JUndefined \<and> b ''humidity'' \<noteq> JUndefined
            \<and> parseFloat (b ''temperature'') = Inr temp \<and> parseFloat (b ''humidity'') = Inr hum
            \<and> \<not> (isNaN temp \<or> isNaN hum \<or> js_lt temp (Fin (- 50)) \<or> js_gt temp (Fin 100)
                 \<or> js_lt hum (Fin 0) \<or> js_gt hum (Fin 100)) \<longrightarrow>
            calls (snd (webhook_thingspeak E req d)) =
              calls d @ [Insert temp hum
                (if truthy (b ''created_at'') then b ''created_at'' else JStr (now_iso E)) ''thingspeak''])"
proof (intro conjI impI)
  assume "b ''temperature'' = JUndefined \<or> b ''humidity'' = JUndefined"
  then show "webhook_thingspeak E req d = (json 400 (ErrorBody ''Faltan campos requeridos''), d)"
    using assms(1-3) by (simp add: webhook_thingspeak_def)
next
  assume a: "b ''temperature'' \<noteq> JUndefined \<and> b ''humidity'' \<noteq> JUndefined
            \<and> (isl (parseFloat (b ''temperature'')) \<or> isl (parseFloat (b ''humidity'')))"
  then show "webhook_thingspeak E req d = (json 500 (ErrorBody ''Error interno del servidor''), d)"
    using assms(1-3) by (auto simp: webhook_thingspeak_def isl_def Let_def split: sum.splits)
next
  assume a: "b ''temperature'' \<noteq> JUndefined \<and> b ''humidity'' \<noteq> JUndefined
            \<and> parseFloat (b ''temperature'') = Inr temp \<and> parseFloat (b ''humidity'') = Inr hum
            \<and> (isNaN temp \<or> isNaN hum \<or> js_lt temp (Fin (- 50)) \<or> js_gt temp (Fin 100)
                 \<or> js_lt hum (Fin 0) \<or> js_gt hum (Fin 100))"
  have h: "headers req ''x-webhook-secret'' = process_env E ''WEBHOOK_SECRET''"
    using assms(1,2) by simp
  from a have "webhook_thingspeak E req d =
    (if isNaN temp \<or> isNaN hum \<or> js_lt temp (Fin (- 50)) \<or> js_gt temp (Fin 100)
                        \<or> js_lt hum (Fin 0) \<or> js_gt hum (Fin 100) then
                       (json 400 (ErrorBody ''Valores fuera de rango''), d)
        else let (res, d') = sb_insert E temp hum
                              (if truthy (b ''created_at'') then b ''created_at'' else JStr (now_iso E))
                              ''thingspeak'' d
                       in if error res \<noteq> None then
                            (json 500 (ErrorBody ''Error al guardar datos''), d')
                          else
                            case data res of
                              None \<Rightarrow> (json 500 (ErrorBody ''Error interno del servidor''), d')
                            | Some rs \<Rightarrow>
                                (json 201
                                   (SavedBody (case rs of [] \<Rightarrow> None | r # rs' \<Rightarrow> Some r)
                                      ''Datos guardados correctamente''), d'))"
    by (intro authorized_unfold [OF h assms(3)]) simp_all
  with a show "webhook_thingspeak E req d = (json 400 (ErrorBody ''Valores fuera de rango''), d)"
    by simp
next
  assume a: "b ''temperature'' \<noteq> JUndefined \<and> b ''humidity'' \<noteq> JUndefined
            \<and> parseFloat (b ''temperature'') = Inr temp \<and> parseFloat (b ''humidity'') = Inr hum
            \<and> \<not> (isNaN temp \<or> isNaN hum \<or> js_lt temp (Fin (- 50)) \<or> js_gt temp (Fin 100)
                 \<or> js_lt hum (Fin 0) \<or> js_gt hum (Fin 100))"
  have h: "headers req ''x-webhook-secret'' = process_env E ''WEBHOOK_SECRET''"
    using assms(1,2) by simp
  from a have "webhook_thingspeak E req d =
    (if isNaN temp \<or> isNaN hum \<or> js_lt temp (Fin (- 50)) \<or> js_gt temp (Fin 100)
                        \<or> js_lt hum (Fin 0) \<or> js_gt hum (Fin 100) then
                       (json 400 (ErrorBody ''Valores fuera de rango''), d)
        else let (res, d') = sb_insert E temp hum
                              (if truthy (b ''created_at'') then b ''created_at'' else JStr (now_iso E))
                              ''thingspeak'' d
                       in if error res \<noteq> None then
                            (json 500 (ErrorBody ''Error al guardar datos''), d')
                          else
                            case data res of
                              None \<Rightarrow> (json 500 (ErrorBody ''Error interno del servidor''), d')
                            | Some rs \<Rightarrow>
                                (json 201
                                   (SavedBody (case rs of [] \<Rightarrow> None | r # rs' \<Rightarrow> Some r)
                                      ''Datos guardados correctamente''), d'))"
    by (intro authorized_unfold [OF h assms(3)]) simp_all
  with a show "calls (snd (webhook_thingspeak E req d)) =
              calls d @ [Insert temp hum
                (if truthy (b ''created_at'') then b ''created_at'' else JStr (now_iso E)) ''thingspeak'']"
    by (simp add: Let_def sb_insert_def failed_def returned_def split: option.splits prod.splits)
qed

text \<open>
  The theorem at a push without temperature, at one whose temperature is an object that
  cannot be printed, at one whose temperature is \<^verbatim>\<open>null\<close>, and at one whose temperature is
  the string \<^verbatim>\<open>"21"\<close>.
\<close>

theorem validation_order_witness:
  "webhook_thingspeak sample_env (push (Some ''s3cret'') JUndefined (JNum (Fin 50))) empty_db
     = (json 400 (ErrorBody ''Faltan campos requeridos''), empty_db)
   \<and> webhook_thingspeak sample_env (push (Some ''s3cret'') JUnprintable (JNum (Fin 50))) empty_db
     = (json 500 (ErrorBody ''Error interno del servidor''), empty_db)
   \<and> webhook_thingspeak sample_env (push (Some ''s3cret'') JNull (JNum (Fin 50))) empty_db
     = (json 400 (ErrorBody ''Valores fuera de rango''), empty_db)
   \<and> calls (snd (webhook_thingspeak sample_env (push (Some ''s3cret'') (JStr ''21'') (JNum (Fin 50))) empty_db))
     = [Insert (Fin 21) (Fin 50) (JStr ''2025-01-01T00:00:00.000Z'') ''thingspeak'']"
  using validation_order [where E = sample_env and s = "''s3cret''"
      and req = "push (Some ''s3cret'') JUndefined (JNum (Fin 50))"
      and b = "(\<lambda>k. if k = ''temperature'' then JUndefined else if k = ''humidity'' then JNum (Fin 50) else JUndefined)"
      and temp = "NaN" and hum = "Fin 50" and d = empty_db]
    validation_order [where E = sample_env and s = "''s3cret''"
      and req = "push (Some ''s3cret'') JUnprintable (JNum (Fin 50))"
      and b = "(\<lambda>k. if k = ''temperature'' then JUnprintable else if k = ''humidity'' then JNum (Fin 50) else JUndefined)"
      and temp = "NaN" and hum = "Fin 50" and d = empty_db]
    validation_order [where E = sample_env and s = "''s3cret''"
      and req = "push (Some ''s3cret'') JNull (JNum (Fin 50))"
      and b = "(\<lambda>k. if k = ''temperature'' then JNull else if k = ''humidity'' then JNum (Fin 50) else JUndefined)"
      and temp = "NaN" and hum = "Fin 50" and d = empty_db]
    validation_order [where E = sample_env and s = "''s3cret''"
      and req = "push (Some ''s3cret'') (JStr ''21'') (JNum (Fin 50))"
      and b = "(\<lambda>k. if k = ''temperature'' then (JStr ''21'') else if k = ''humidity'' then JNum (Fin 50) else JUndefined)"
      and temp = "Fin 21" and hum = "Fin 50" and d = empty_db]
  by (simp add: sample_env_def push_def empty_db_def isNaN_def js_gt_def scan_defs r64_samples)

text \<open>
  The claim as it was stated fails: the payload \<^verbatim>\<open>{temperature: "abc", humidity: 50}\<close>
  is present and not numeric, and the payload \<^verbatim>\<open>{temperature: 150, humidity: 50}\<close> is
  numeric and out of range; both get the same answer, the one of the range check.
\<close>

theorem not_a_number_reported_as_out_of_range:
  "parseFloat (JStr ''abc'') = Inr NaN \<and> parseFloat (JNum (Fin 150)) = Inr (Fin 150)
   \<and> webhook_thingspeak sample_env (push (Some ''s3cret'') (JStr ''abc'') (JNum (Fin 50))) empty_db
       = (json 400 (ErrorBody ''Valores fuera de rango''), empty_db)
   \<and> webhook_thingspeak sample_env (push (Some ''s3cret'') (JNum (Fin 150)) (JNum (Fin 50))) empty_db
       = (json 400 (ErrorBody ''Valores fuera de rango''), empty_db)"
  by (simp add: webhook_thingspeak_def sample_env_def push_def isNaN_def js_gt_def scan_defs)

section \<open>Strings with a numeric prefix\<close>

text \<open>
  Claim C10, as amended. For every push with the correct secret in which the temperature
  or the humidity (or both) is a string that starts with a decimal literal and goes on with
  characters that cannot continue it, as in \<^verbatim>\<open>"23.5abc"\<close>, coercion gives the value of the
  literal, so the field is not rejected as not a number; when the coerced values are in
  range and the store accepts the insert, the push is accepted with 201 and the stored row
  holds the value of the prefix.
\<close>

theorem numeric_prefix_accepted:
  assumes "process_env E ''WEBHOOK_SECRET'' = Some s"
    and "headers req ''x-webhook-secret'' = Some s"
    and "payload req = Some b"
    and "numeric_prefix (b ''temperature'') p c junk x \<or> parseFloat (b ''temperature'') = Inr (Fin x)"
    and "numeric_prefix (b ''humidity'') p' c' junk' y \<or> parseFloat (b ''humidity'') = Inr (Fin y)"
    and "- 50 \<le> x" and "x \<le> 100" and "0 \<le> y" and "y \<le> 100"
    and "store_fault E = None"
    and "timestamptz_in E (if truthy (b ''created_at'') then b ''created_at'' else JStr (now_iso E)) = Some ts"
    and "r = \<lparr>temperature = JNum (Fin x), humidity = JNum (Fin y), created_at = ts, source = ''thingspeak''\<rparr>"
  shows "parseFloat (b ''temperature'') = Inr (Fin x) \<and> parseFloat (b ''humidity'') = Inr (Fin y)
       \<and> webhook_thingspeak E req d =
           (json 201 (SavedBody (Some r) ''Datos guardados correctamente''),
            \<lparr>rows = rows d @ [r],
             calls = calls d @ [Insert (Fin x) (Fin y)
               (if truthy (b ''created_at'') then b ''created_at'' else JStr (now_iso E)) ''thingspeak'']\<rparr>)"
proof -
  have t: "parseFloat (b ''temperature'') = Inr (Fin x)" and h: "parseFloat (b ''humidity'') = Inr (Fin y)"
    using numeric_prefix_coerces [OF assms(4)] numeric_prefix_coerces [OF assms(5)] by simp_all
  have a: "headers req ''x-webhook-secret'' = process_env E ''WEBHOOK_SECRET''"
    using assms(1,2) by simp
  show ?thesis
    using t h coerced_accepted [OF a assms(3) t assms(6,7) h assms(8-12)] by simp
qed

text \<open>The theorem at the push \<^verbatim>\<open>{temperature: "23.5abc", humidity: "61 %"}\<close>.\<close>

theorem numeric_prefix_accepted_witness:
  "numeric_prefix (JStr ''23.5abc'') ''23.5'' CHR ''a'' ''bc'' (47 / 2)
   \<and> numeric_prefix (JStr ''61 %'') ''61'' CHR '' '' ''%'' 61
   \<and> parseFloat (JStr ''23.5abc'') = Inr (Fin (47 / 2))
   \<and> webhook_thingspeak sample_env (push (Some ''s3cret'') (JStr ''23.5abc'') (JStr ''61 %'')) empty_db =
     (json 201 (SavedBody (Some \<lparr>temperature = JNum (Fin (47 / 2)), humidity = JNum (Fin 61),
                                   created_at = 0, source = ''thingspeak''\<rparr>)
        ''Datos guardados correctamente''),
      \<lparr>rows = [\<lparr>temperature = JNum (Fin (47 / 2)), humidity = JNum (Fin 61),
                 created_at = 0, source = ''thingspeak''\<rparr>],
       calls = [Insert (Fin (47 / 2)) (Fin 61) (JStr ''2025-01-01T00:00:00.000Z'') ''thingspeak'']\<rparr>)"
proof -
  have n: "numeric_prefix (JStr ''23.5abc'') ''23.5'' CHR ''a'' ''bc'' (47 / 2)"
    and m: "numeric_prefix (JStr ''61 %'') ''61'' CHR '' '' ''%'' 61"
    by (simp_all add: numeric_prefix_def whole_literal_def non_numeric_def scan_defs r64_samples)
  show ?thesis
    using n m numeric_prefix_accepted [of sample_env "''s3cret''"
      "push (Some ''s3cret'') (JStr ''23.5abc'') (JStr ''61 %'')"
      "(\<lambda>k. if k = ''temperature'' then JStr ''23.5abc'' else if k = ''humidity'' then JStr ''61 %'' else JUndefined)"
      "''23.5''" "CHR ''a''" "''bc''" "47 / 2" "''61''" "CHR '' ''" "''%''" 61 0 _ empty_db]
    by (simp add: sample_env_def push_def empty_db_def)
qed

text \<open>
  The claim as it was stated fails: the temperature \<^verbatim>\<open>"150abc"\<close> coerces to its prefix
  150, and the push is rejected by the range check.
\<close>

theorem numeric_prefix_out_of_range_rejected:
  "numeric_prefix (JStr ''150abc'') ''150'' CHR ''a'' ''bc'' 150
   \<and> parseFloat (JStr ''150abc'') = Inr (Fin 150)
   \<and> webhook_thingspeak sample_env (push (Some ''s3cret'') (JStr ''150abc'') (JNum (Fin 50))) empty_db
       = (json 400 (ErrorBody ''Valores fuera de rango''), empty_db)"
  by (simp add: webhook_thingspeak_def numeric_prefix_def whole_literal_def non_numeric_def
      sample_env_def push_def isNaN_def js_gt_def scan_defs r64_samples)

section \<open>The latest reading of an empty table\<close>

text \<open>
  Claim C5. The claim asks for the answer \<^verbatim>\<open>{success: true, data: null}\<close> when the table
  holds no reading. The handler asks the client for exactly one row with \<^verbatim>\<open>.single()\<close>;
  on an empty table the client resolves to an error, the handler throws it, and the answer
  is 500 with \<^verbatim>\<open>{error: 'Error al obtener datos'}\<close>.
\<close>

theorem latest_on_empty_table_500:
  "rows empty_db = [] \<and> store_fault sample_env = None
   \<and> get_latest sample_env empty_db =
       (json 500 (ErrorBody ''Error al obtener datos''), \<lparr>rows = [], calls = [SelectLatest]\<rparr>)"
  by (simp add: get_latest_def sb_select_latest_def newest_first_def sample_env_def empty_db_def
      failed_def Let_def)

text \<open>The same for every empty table and every process.\<close>

lemma latest_empty_any:
  assumes "rows d = []"
  shows "get_latest E d =
    (json 500 (ErrorBody ''Error al obtener datos''), d\<lparr>calls := calls d @ [SelectLatest]\<rparr>)"
  using assms
  by (simp add: get_latest_def sb_select_latest_def newest_first_def failed_def Let_def
      split: option.splits)

section \<open>The statistics: lemmas\<close>

lemma collect_length: "collect xs = Inr ys \<Longrightarrow> length ys = length xs"
proof (induction xs arbitrary: ys)
  case Nil
  then show ?case by simp
next
  case (Cons x xs)
  then show ?case by (auto split: sum.splits)
qed

lemma today_stats_collected:
  assumes "rs \<noteq> []"
    and "collect (map (\<lambda>r. parseFloat (temperature r)) rs) = Inr temps"
    and "collect (map (\<lambda>r. parseFloat (humidity r)) rs) = Inr hums"
    and "length rs \<le> A"
  shows "today_stats A rs =
           Inr \<lparr>count = length rs,
                temperature_summary = summarise temps,
                humidity_summary = summarise hums\<rparr>"
  using assms collect_length [OF assms(2)] by (simp add: today_stats_def)

lemma stats_of_finite:
  assumes "rs \<noteq> []"
    and "map (\<lambda>r. parseFloat (temperature r)) rs = map (\<lambda>x. Inr (Fin x)) ts"
    and "map (\<lambda>r. parseFloat (humidity r)) rs = map (\<lambda>x. Inr (Fin x)) hs"
    and "length rs \<le> A"
  shows "today_stats A rs =
           Inr \<lparr>count = length rs,
                temperature_summary = summarise (map Fin ts),
                humidity_summary = summarise (map Fin hs)\<rparr>"
  using assms(1,4) by (intro today_stats_collected) (simp_all add: assms(2,3) collect_values)

section \<open>The query endpoints: lemmas\<close>

lemmas parseInt_defs = parseInt_str_def is_space_def is_digit_def is_hex_digit_def
  radix_val_def hex_val_def

lemma r64_zero: "r64 0 = Fin 0"
  by (simp add: r64_def)

lemma parseInt_samples:
  "parseInt_str ''2'' = Fin 2"
  "parseInt_str ''5000'' = Fin 5000"
  "parseInt_str ''0'' = Fin 0"
  "parseInt_str ''undefined'' = NaN"
  by (simp_all add: parseInt_defs r64_samples r64_zero)

lemma select_since_none:
  assumes "store_fault E = None" and "\<forall>r \<in> set (rows d). created_at r < t"
  shows "sb_select_since E t d = (returned [], d\<lparr>calls := calls d @ [SelectSince t]\<rparr>)"
proof -
  have "filter (\<lambda>r. t \<le> created_at r) (rows d) = []"
    using assms(2) by (auto simp: filter_empty_conv)
  then show ?thesis using assms(1) by (simp add: sb_select_since_def Let_def)
qed

lemma Math_min_cap:
  "Math_min [Fin (of_nat k), Fin 1000] = Fin (of_nat (min k 1000))"
  by (simp add: Math_min_def min_def)

lemma select_recent_natural:
  "sb_select_recent E (Fin (of_nat m)) d =
     (case store_fault E of
        Some err \<Rightarrow> failed err
      | None \<Rightarrow> returned (take m (newest_first (rows d))),
      d\<lparr>calls := calls d @ [SelectRecent (Fin (of_nat m))]\<rparr>)"
  by (simp add: sb_select_recent_def Let_def split: option.splits)

text \<open>The handler when the limit it arrives at is a natural number \<open>k\<close>.\<close>

lemma get_readings_natural:
  assumes "parseInt (query req ''limit'') = Inr n"
    and "(if truthy (JNum n) then n else Fin 100) = Fin (of_nat k)"
  shows "get_readings E req d =
     (case store_fault E of
        Some err \<Rightarrow> json 500 (ErrorBody ''Error al obtener datos'')
      | None \<Rightarrow> json 200 (ReadingsBody (length (take (min k 1000) (newest_first (rows d))))
                   (rev (take (min k 1000) (newest_first (rows d))))),
      d\<lparr>calls := calls d @ [SelectRecent (Fin (of_nat (min k 1000)))]\<rparr>)"
  using assms
  by (simp add: get_readings_def Let_def Math_min_cap select_recent_natural failed_def returned_def
      split: option.splits del: truthy.simps)

lemma readings_bounded:
  assumes "parseInt (query req ''limit'') = Inr n"
    and "(if truthy (JNum n) then n else Fin 100) = Fin (of_nat k)"
  shows "length (readings_in (fst (get_readings E req d))) \<le> min k 1000"
    and "calls (snd (get_readings E req d)) = calls d @ [SelectRecent (Fin (of_nat (min k 1000)))]"
  by (auto simp: get_readings_natural [OF assms] readings_in_def json_def split: option.splits)

lemma oldest_first_sorted:
  "sorted (map created_at (rev (take m (newest_first rs))))"
proof -
  have "rev (take m (newest_first rs)) = drop (length rs - m) (sort_key created_at rs)"
    by (simp add: newest_first_def rev_take)
  moreover have "sorted (map created_at (sort_key created_at rs))"
    by (rule sorted_sort_key)
  ultimately show ?thesis
    by (simp add: drop_map [symmetric] sorted_wrt_drop del: drop_map)
qed

section \<open>Statistics of an empty window\<close>

text \<open>
  Claim C6. For the empty sequence the aggregator returns the count 0 and the six values
  \<^verbatim>\<open>null\<close>, whatever the argument limit of the engine. The averages are quotients by the
  length of the sequence of coerced values; they are formed only for a sequence that is
  not empty, where that length is the number of rows and the divisor is not zero. The
  endpoint answers 200 with the object of the empty case when no row of the table is of
  today.
\<close>

theorem empty_window_stats:
  "today_stats A [] =
     Inr \<lparr>count = 0,
          temperature_summary = \<lparr>min_val = None, max_val = None, avg_val = None\<rparr>,
          humidity_summary = \<lparr>min_val = None, max_val = None, avg_val = None\<rparr>\<rparr>
   \<and> (\<forall>rs temps hums. rs \<noteq> []
           \<and> collect (map (\<lambda>r. parseFloat (temperature r)) rs) = Inr temps
           \<and> collect (map (\<lambda>r. parseFloat (humidity r)) rs) = Inr hums \<longrightarrow>
         (length rs \<le> A \<longrightarrow>
            today_stats A rs =
              Inr \<lparr>count = length rs,
                   temperature_summary = summarise temps,
                   humidity_summary = summarise hums\<rparr>)
         \<and> (A < length rs \<longrightarrow> today_stats A rs = Inl RangeError)
         \<and> Fin (of_nat (length temps)) \<noteq> Fin 0
         \<and> Fin (of_nat (length hums)) \<noteq> Fin 0)
   \<and> (store_fault E = None \<and> (\<forall>r \<in> set (rows d). created_at r < today E) \<longrightarrow>
         stats_today E d =
           (json 200 (StatsBody
              \<lparr>count = 0,
               temperature_summary = \<lparr>min_val = None, max_val = None, avg_val = None\<rparr>,
               humidity_summary = \<lparr>min_val = None, max_val = None, avg_val = None\<rparr>\<rparr>),
            d\<lparr>calls := calls d @ [SelectSince (today E)]\<rparr>))"
proof (intro conjI allI impI)
  show e: "today_stats A [] =
     Inr \<lparr>count = 0,
          temperature_summary = \<lparr>min_val = None, max_val = None, avg_val = None\<rparr>,
          humidity_summary = \<lparr>min_val = None, max_val = None, avg_val = None\<rparr>\<rparr>"
    by (simp add: today_stats_def no_stats_def)
  {
    assume a: "store_fault E = None \<and> (\<forall>r \<in> set (rows d). created_at r < today E)"
    then have "sb_select_since E (today E) d =
        (returned [], d\<lparr>calls := calls d @ [SelectSince (today E)]\<rparr>)"
      by (simp add: select_since_none)
    then show "stats_today E d =
           (json 200 (StatsBody
              \<lparr>count = 0,
               temperature_summary = \<lparr>min_val = None, max_val = None, avg_val = None\<rparr>,
               humidity_summary = \<lparr>min_val = None, max_val = None, avg_val = None\<rparr>\<rparr>),
            d\<lparr>calls := calls d @ [SelectSince (today E)]\<rparr>)"
      by (simp add: stats_today_def returned_def today_stats_def no_stats_def)
  }
  fix rs :: "measurement list" and temps hums
  assume a: "rs \<noteq> []
           \<and> collect (map (\<lambda>r. parseFloat (temperature r)) rs) = Inr temps
           \<and> collect (map (\<lambda>r. parseFloat (humidity r)) rs) = Inr hums"
  then have t: "length temps = length rs" and h: "length hums = length rs"
    using collect_length [of "map (\<lambda>r. parseFloat (temperature r)) rs" temps]
      collect_length [of "map (\<lambda>r. parseFloat (humidity r)) rs" hums] by simp_all
  show "Fin (of_nat (length temps)) \<noteq> Fin 0" and "Fin (of_nat (length hums)) \<noteq> Fin 0"
    using a t h by simp_all
  {
    assume "length rs \<le> A"
    then show "today_stats A rs =
              Inr \<lparr>count = length rs,
                   temperature_summary = summarise temps,
                   humidity_summary = summarise hums\<rparr>"
      using a by (simp add: today_stats_collected)
  }
  {
    assume "A < length rs"
    then show "today_stats A rs = Inl RangeError"
      using a t by (simp add: today_stats_def)
  }
qed

text \<open>
  The theorem at a table whose only row is older than today, and at a sequence of one
  reading.
\<close>

theorem empty_window_stats_witness:
  "stats_today sample_env \<lparr>rows = [row 20 (- 5)], calls = []\<rparr> =
           (json 200 (StatsBody
              \<lparr>count = 0,
               temperature_summary = \<lparr>min_val = None, max_val = None, avg_val = None\<rparr>,
               humidity_summary = \<lparr>min_val = None, max_val = None, avg_val = None\<rparr>\<rparr>),
            \<lparr>rows = [row 20 (- 5)], calls = [SelectSince 0]\<rparr>)
   \<and> today_stats 65535 [measured 20 50] =
           Inr \<lparr>count = 1,
                temperature_summary = summarise [Fin 20],
                humidity_summary = summarise [Fin 50]\<rparr>
   \<and> today_stats 0 [measured 20 50] = Inl RangeError"
proof -
  note t = empty_window_stats [of 65535 sample_env "\<lparr>rows = [row 20 (- 5)], calls = []\<rparr>"]
  note u = empty_window_stats [of 0 sample_env "\<lparr>rows = [row 20 (- 5)], calls = []\<rparr>"]
  have c: "[measured 20 50] \<noteq> []
           \<and> collect (map (\<lambda>r. parseFloat (temperature r)) [measured 20 50]) = Inr [Fin 20]
           \<and> collect (map (\<lambda>r. parseFloat (humidity r)) [measured 20 50]) = Inr [Fin 50]"
    by (simp add: measured_def r64_samples)
  have "stats_today sample_env \<lparr>rows = [row 20 (- 5)], calls = []\<rparr> =
           (json 200 (StatsBody
              \<lparr>count = 0,
               temperature_summary = \<lparr>min_val = None, max_val = None, avg_val = None\<rparr>,
               humidity_summary = \<lparr>min_val = None, max_val = None, avg_val = None\<rparr>\<rparr>),
            \<lparr>rows = [row 20 (- 5)], calls = [SelectSince 0]\<rparr>)"
    using t [THEN conjunct2, THEN conjunct2] by (simp add: sample_env_def row_def)
  moreover have "today_stats 65535 [measured 20 50] =
           Inr \<lparr>count = 1,
                temperature_summary = summarise [Fin 20],
                humidity_summary = summarise [Fin 50]\<rparr>"
    using t [THEN conjunct2, THEN conjunct1, rule_format, OF c] by simp
  moreover have "today_stats 0 [measured 20 50] = Inl RangeError"
    using u [THEN conjunct2, THEN conjunct1, rule_format, OF c] by simp
  ultimately show ?thesis by simp
qed

section \<open>Statistics of a window with readings\<close>

text \<open>
  Claim C7, as amended. For every sequence of readings that is not empty and within the
  argument limit of the engine (each temperature a finite number in [-50, 100], each
  humidity a finite number in [0, 100]; an array has fewer than \<open>2^32\<close> elements) the
  aggregator returns the length of the sequence as the count, the least and the greatest
  value as they are, and as the average the two-decimal string of the mean as binary64
  arithmetic computes it: the values are added from the left, each sum rounded to
  binary64, and the total is divided by the count and rounded again. That mean is a finite
  number of magnitude at most 100, and the string reads back as it rounded to two places.
  The window of 20, 25 and 30 gives 20, 30 and \<^verbatim>\<open>25.00\<close>.
\<close>

theorem window_stats:
  assumes "rs \<noteq> []"
    and "map (\<lambda>r. parseFloat (temperature r)) rs = map (\<lambda>x. Inr (Fin x)) ts"
    and "map (\<lambda>r. parseFloat (humidity r)) rs = map (\<lambda>x. Inr (Fin x)) hs"
    and "\<forall>x \<in> set ts. - 50 \<le> x \<and> x \<le> 100"
    and "\<forall>y \<in> set hs. 0 \<le> y \<and> y \<le> 100"
    and "length rs \<le> A"
    and "length rs < 2 ^ 32"
  shows "\<exists>m_t m_h s_t s_h.
           mean64 ts = Fin m_t \<and> \<bar>m_t\<bar> \<le> 100 \<and> mean64 hs = Fin m_h \<and> \<bar>m_h\<bar> \<le> 100
         \<and> today_stats A rs =
             Inr \<lparr>count = length rs,
                  temperature_summary =
                    \<lparr>min_val = Some (Fin (Min (set ts))), max_val = Some (Fin (Max (set ts))),
                     avg_val = Some (Decimal s_t)\<rparr>,
                  humidity_summary =
                    \<lparr>min_val = Some (Fin (Min (set hs))), max_val = Some (Fin (Max (set hs))),
                     avg_val = Some (Decimal s_h)\<rparr>\<rparr>
         \<and> toFixed (Fin m_t) 2 = Decimal s_t \<and> decimal_value s_t = Some (round2 m_t)
         \<and> toFixed (Fin m_h) 2 = Decimal s_h \<and> decimal_value s_h = Some (round2 m_h)"
proof -
  have lt: "length ts = length rs" and lh: "length hs = length rs"
    using arg_cong [OF assms(2), of length] arg_cong [OF assms(3), of length] by simp_all
  have t: "ts \<noteq> []" and h: "hs \<noteq> []"
    using assms(1) lt lh by auto
  have "\<forall>x \<in> set ts. \<bar>x\<bar> \<le> 100" and "\<forall>y \<in> set hs. \<bar>y\<bar> \<le> 100"
    using assms(4,5) by (auto simp: abs_le_iff)
  then obtain m_t m_h where mt: "mean64 ts = Fin m_t" "\<bar>m_t\<bar> \<le> 100"
    and mh: "mean64 hs = Fin m_h" "\<bar>m_h\<bar> \<le> 100"
    using mean64_bounded [OF t] mean64_bounded [OF h] assms(7) lt lh by metis
  have bt: "\<bar>m_t\<bar> < 10 ^ 21" and bh: "\<bar>m_h\<bar> < 10 ^ 21"
    using mt(2) mh(2) by simp_all
  obtain s_t where st: "toFixed (Fin m_t) 2 = Decimal s_t" "decimal_value s_t = Some (round2 m_t)"
    using toFixed2_reads_back [OF bt] by auto
  obtain s_h where sh: "toFixed (Fin m_h) 2 = Decimal s_h" "decimal_value s_h = Some (round2 m_h)"
    using toFixed2_reads_back [OF bh] by auto
  have "summarise (map Fin ts) =
          \<lparr>min_val = Some (Fin (Min (set ts))), max_val = Some (Fin (Max (set ts))),
           avg_val = Some (Decimal s_t)\<rparr>"
    using summarise_finite(1-3) [OF t mt(1) bt] st(1) mt(1) by (cases "summarise (map Fin ts)") simp
  moreover have "summarise (map Fin hs) =
          \<lparr>min_val = Some (Fin (Min (set hs))), max_val = Some (Fin (Max (set hs))),
           avg_val = Some (Decimal s_h)\<rparr>"
    using summarise_finite(1-3) [OF h mh(1) bh] sh(1) mh(1) by (cases "summarise (map Fin hs)") simp
  ultimately have "today_stats A rs =
             Inr \<lparr>count = length rs,
                  temperature_summary =
                    \<lparr>min_val = Some (Fin (Min (set ts))), max_val = Some (Fin (Max (set ts))),
                     avg_val = Some (Decimal s_t)\<rparr>,
                  humidity_summary =
                    \<lparr>min_val = Some (Fin (Min (set hs))), max_val = Some (Fin (Max (set hs))),
                     avg_val = Some (Decimal s_h)\<rparr>\<rparr>"
    using stats_of_finite [OF assms(1-3,6)] by simp
  with mt mh st sh show ?thesis by blast
qed

text \<open>The theorem at the window of 20, 25 and 30 degrees.\<close>

theorem window_stats_witness:
  "today_stats 65535 [measured 20 40, measured 25 (81 / 2), measured 30 41] =
     Inr \<lparr>count = 3,
          temperature_summary =
            \<lparr>min_val = Some (Fin 20), max_val = Some (Fin 30), avg_val = Some (Decimal ''25.00'')\<rparr>,
          humidity_summary =
            \<lparr>min_val = Some (Fin 40), max_val = Some (Fin 41), avg_val = Some (Decimal ''40.50'')\<rparr>\<rparr>
   \<and> mean64 [20, 25, 30] = Fin 25
   \<and> decimal_value ''25.00'' = Some (round2 25)"
proof -
  have p: "[measured 20 40, measured 25 (81 / 2), measured 30 41] \<noteq> []"
    "map (\<lambda>r. parseFloat (temperature r)) [measured 20 40, measured 25 (81 / 2), measured 30 41]
       = map (\<lambda>x. Inr (Fin x)) [20, 25, 30]"
    "map (\<lambda>r. parseFloat (humidity r)) [measured 20 40, measured 25 (81 / 2), measured 30 41]
       = map (\<lambda>x. Inr (Fin x)) [40, 81 / 2, 41]"
    "\<forall>x \<in> set [20, 25, 30 :: rat]. - 50 \<le> x \<and> x \<le> 100"
    "\<forall>y \<in> set [40, 81 / 2, 41 :: rat]. 0 \<le> y \<and> y \<le> 100"
    "length [measured 20 40, measured 25 (81 / 2), measured 30 41] \<le> 65535"
    "length [measured 20 40, measured 25 (81 / 2), measured 30 41] < 2 ^ 32"
    by (simp_all add: measured_def r64_samples)
  have m: "mean64 [20, 25, 30] = Fin 25" "mean64 [40, 81 / 2, 41] = Fin (81 / 2)"
    by code_simp+
  have f: "toFixed (Fin 25) 2 = Decimal ''25.00''" "toFixed (Fin (81 / 2)) 2 = Decimal ''40.50''"
    by code_simp+
  from window_stats [OF p] obtain m_t m_h s_t s_h where
    w: "mean64 [20, 25, 30] = Fin m_t" "mean64 [40, 81 / 2, 41] = Fin m_h"
      "today_stats 65535 [measured 20 40, measured 25 (81 / 2), measured 30 41] =
             Inr \<lparr>count = length [measured 20 40, measured 25 (81 / 2), measured 30 41],
                  temperature_summary =
                    \<lparr>min_val = Some (Fin (Min (set [20, 25, 30]))), max_val = Some (Fin (Max (set [20, 25, 30]))),
                     avg_val = Some (Decimal s_t)\<rparr>,
                  humidity_summary =
                    \<lparr>min_val = Some (Fin (Min (set [40, 81 / 2, 41]))), max_val = Some (Fin (Max (set [40, 81 / 2, 41]))),
                     avg_val = Some (Decimal s_h)\<rparr>\<rparr>"
      "toFixed (Fin m_t) 2 = Decimal s_t" "decimal_value s_t = Some (round2 m_t)"
      "toFixed (Fin m_h) 2 = Decimal s_h"
    by blast
  have "Fin m_t = Fin 25" and "Fin m_h = Fin (81 / 2)"
    using w(1,2) m by simp_all
  then have "Decimal s_t = Decimal ''25.00''" and "Decimal s_h = Decimal ''40.50''"
    using w(4,6) f by (simp_all only:)
  then have "s_t = ''25.00''" and "s_h = ''40.50''"
    by simp_all
  then show ?thesis
    using w(3,5) m(1) \<open>Fin m_t = Fin 25\<close> by simp
qed

text \<open>
  The claim as it was stated fails at the window of 23.3, 23.5, 21.8 and 25.7 degrees.
  The rows hold the binary64 numbers nearest to these; their arithmetic mean is just above
  23.575 and rounds to 23.58, while the sum that binary64 addition arrives at, divided by
  four, is just below 23.575, and the answer carries \<^verbatim>\<open>23.57\<close>.
\<close>

theorem window_mean_differs_from_binary64_mean:
  "[measured (233 / 10) 50, measured (47 / 2) 50, measured (218 / 10) 50, measured (257 / 10) 50] =
     [\<lparr>temperature = JNum (Fin (6558366957358285 / 281474976710656)), humidity = JNum (Fin 50)\<rparr>,
      \<lparr>temperature = JNum (Fin (47 / 2)), humidity = JNum (Fin 50)\<rparr>,
      \<lparr>temperature = JNum (Fin (6136154492292301 / 281474976710656)), humidity = JNum (Fin 50)\<rparr>,
      \<lparr>temperature = JNum (Fin (7233906901463859 / 281474976710656)), humidity = JNum (Fin 50)\<rparr>]
   \<and> today_stats 65535
       [measured (233 / 10) 50, measured (47 / 2) 50, measured (218 / 10) 50, measured (257 / 10) 50] =
     Inr \<lparr>count = 4,
          temperature_summary =
            \<lparr>min_val = Some (Fin (6136154492292301 / 281474976710656)),
             max_val = Some (Fin (7233906901463859 / 281474976710656)),
             avg_val = Some (Decimal ''23.57'')\<rparr>,
          humidity_summary =
            \<lparr>min_val = Some (Fin 50), max_val = Some (Fin 50), avg_val = Some (Decimal ''50.00'')\<rparr>\<rparr>
   \<and> decimal_value ''23.57'' = Some (2357 / 100)
   \<and> round2 ((6558366957358285 / 281474976710656 + 47 / 2 + 6136154492292301 / 281474976710656
               + 7233906901463859 / 281474976710656) / 4) = 2358 / 100"
  by code_simp

section \<open>The number of recent readings\<close>

text \<open>
  Claim C8, as amended. When the \<^verbatim>\<open>limit\<close> parameter reads as a positive integer \<open>k\<close>,
  the answer carries at most \<open>min k 1000\<close> readings, never more than asked for and never
  more than the cap of 1000, and that minimum is the limit sent to the store. When the
  parameter is absent, does not read as a number, or reads as zero, the limit is the
  default of 100.
\<close>

theorem recent_limit_bound:
  assumes "parseInt (query req ''limit'') = Inr n"
  shows "(\<forall>k. 0 < k \<and> n = Fin (of_nat k) \<longrightarrow>
            length (readings_in (fst (get_readings E req d))) \<le> min k 1000
            \<and> calls (snd (get_readings E req d)) = calls d @ [SelectRecent (Fin (of_nat (min k 1000)))])
       \<and> (n = NaN \<or> n = Fin 0 \<longrightarrow>
            length (readings_in (fst (get_readings E req d))) \<le> 100
            \<and> calls (snd (get_readings E req d)) = calls d @ [SelectRecent (Fin 100)])
       \<and> (query req ''limit'' = QUndefined \<longrightarrow> n = NaN)"
proof (intro conjI allI impI)
  fix k :: nat
  assume k: "0 < k \<and> n = Fin (of_nat k)"
  then have l: "(if truthy (JNum n) then n else Fin 100) = Fin (of_nat k)"
    by auto
  show "length (readings_in (fst (get_readings E req d))) \<le> min k 1000"
    and "calls (snd (get_readings E req d)) = calls d @ [SelectRecent (Fin (of_nat (min k 1000)))]"
    using readings_bounded [OF assms l] by simp_all
next
  assume "n = NaN \<or> n = Fin 0"
  then have l: "(if truthy (JNum n) then n else Fin 100) = Fin (of_nat 100)"
    by auto
  show "length (readings_in (fst (get_readings E req d))) \<le> 100"
    and "calls (snd (get_readings E req d)) = calls d @ [SelectRecent (Fin 100)]"
    using readings_bounded [OF assms l, of E d] by simp_all
next
  assume "query req ''limit'' = QUndefined"
  then show "n = NaN"
    using assms by (simp add: parseInt_samples)
qed

text \<open>The theorem at the limits \<^verbatim>\<open>2\<close> and \<^verbatim>\<open>5000\<close> and at a request without limit.\<close>

theorem recent_limit_bound_witness:
  "parseInt (QStr ''2'') = Inr (Fin (of_nat 2))
   \<and> length (readings_in (fst (get_readings sample_env (ask (QStr ''2''))
        \<lparr>rows = [row 20 1, row 21 3, row 22 2], calls = []\<rparr>))) \<le> 2
   \<and> calls (snd (get_readings sample_env (ask (QStr ''5000'')) empty_db)) = [SelectRecent (Fin 1000)]
   \<and> calls (snd (get_readings sample_env (ask QUndefined) empty_db)) = [SelectRecent (Fin 100)]"
  using recent_limit_bound [of "ask (QStr ''2'')" "Fin 2" sample_env
      "\<lparr>rows = [row 20 1, row 21 3, row 22 2], calls = []\<rparr>"]
    recent_limit_bound [of "ask (QStr ''5000'')" "Fin 5000" sample_env empty_db]
    recent_limit_bound [of "ask QUndefined" NaN sample_env empty_db]
  by (simp add: ask_def parseInt_samples empty_db_def)

text \<open>
  The claim as it was stated fails at the limit \<^verbatim>\<open>0\<close>: zero is taken for an absent
  limit, and a table of three rows is returned whole.
\<close>

theorem limit_zero_returns_default:
  "parseInt (query (ask (QStr ''0'')) ''limit'') = Inr (Fin 0)
   \<and> get_readings sample_env (ask (QStr ''0'')) \<lparr>rows = [row 20 1, row 21 3, row 22 2], calls = []\<rparr> =
     (json 200 (ReadingsBody 3 [row 20 1, row 22 2, row 21 3]),
      \<lparr>rows = [row 20 1, row 21 3, row 22 2], calls = [SelectRecent (Fin 100)]\<rparr>)
   \<and> \<not> length (readings_in (fst (get_readings sample_env (ask (QStr ''0''))
          \<lparr>rows = [row 20 1, row 21 3, row 22 2], calls = []\<rparr>))) \<le> min 0 1000"
  by (simp add: get_readings_def sb_select_recent_def ask_def parseInt_samples sample_env_def
      Math_min_def newest_first_def row_def returned_def readings_in_def json_def Let_def)

section \<open>The order of recent readings\<close>

text \<open>
  Claim C9. Whatever sequence the store returns for the newest-first query, the answer
  carries its length and its reversal. With the store of the model, which returns the
  newest rows first, the answer is in ascending order of \<^verbatim>\<open>created_at\<close>. With no stored
  data the answer is \<^verbatim>\<open>{success: true, count: 0, data: []}\<close>.
\<close>

theorem recent_oldest_first:
  assumes "parseInt (query req ''limit'') = Inr n"
    and "limit = Math_min [if truthy (JNum n) then n else Fin 100, Fin 1000]"
  shows "(\<forall>rs d'. sb_select_recent E limit d = (returned rs, d') \<longrightarrow>
            get_readings E req d = (json 200 (ReadingsBody (length rs) (rev rs)), d'))
       \<and> (\<forall>m. store_fault E = None \<and> limit = Fin (of_nat m) \<longrightarrow>
            sb_select_recent E limit d =
              (returned (take m (newest_first (rows d))), d\<lparr>calls := calls d @ [SelectRecent limit]\<rparr>)
            \<and> sorted (map created_at (rev (take m (newest_first (rows d))))))
       \<and> (store_fault E = None \<and> rows d = [] \<and> query req ''limit'' = QUndefined \<longrightarrow>
            get_readings E req d =
              (json 200 (ReadingsBody 0 []), d\<lparr>calls := calls d @ [SelectRecent (Fin 100)]\<rparr>))"
proof (intro conjI allI impI)
  fix rs d'
  assume a: "sb_select_recent E limit d = (returned rs, d')"
  have "get_readings E req d =
      (case sb_select_recent E limit d of
         (res, d') \<Rightarrow>
           if error res \<noteq> None then (json 500 (ErrorBody ''Error al obtener datos''), d')
           else (case data res of
                   None \<Rightarrow> (json 500 (ErrorBody ''Error al obtener datos''), d')
                 | Some rs \<Rightarrow> (json 200 (ReadingsBody (length rs) (rev rs)), d')))"
    unfolding assms(2) get_readings_def Let_def by (simp add: assms(1) del: truthy.simps)
  then show "get_readings E req d = (json 200 (ReadingsBody (length rs) (rev rs)), d')"
    by (simp add: a returned_def)
next
  fix m
  assume a: "store_fault E = None \<and> limit = Fin (of_nat m)"
  then show "sb_select_recent E limit d =
              (returned (take m (newest_first (rows d))), d\<lparr>calls := calls d @ [SelectRecent limit]\<rparr>)"
    by (simp add: select_recent_natural)
  show "sorted (map created_at (rev (take m (newest_first (rows d)))))"
    by (rule oldest_first_sorted)
next
  assume a: "store_fault E = None \<and> rows d = [] \<and> query req ''limit'' = QUndefined"
  then have "(if truthy (JNum n) then n else Fin 100) = Fin (of_nat 100)"
    using assms(1) by (auto simp: parseInt_samples)
  from get_readings_natural [OF assms(1) this, of E d] a
  show "get_readings E req d =
              (json 200 (ReadingsBody 0 []), d\<lparr>calls := calls d @ [SelectRecent (Fin 100)]\<rparr>)"
    by (simp add: newest_first_def)
qed

text \<open>
  The theorem at a table of three rows asked for two, and at the empty table asked
  without a limit.
\<close>

theorem recent_oldest_first_witness:
  "sb_select_recent sample_env (Fin 2) \<lparr>rows = [row 20 1, row 21 3, row 22 2], calls = []\<rparr> =
     (returned [row 21 3, row 22 2], \<lparr>rows = [row 20 1, row 21 3, row 22 2], calls = [SelectRecent (Fin 2)]\<rparr>)
   \<and> get_readings sample_env (ask (QStr ''2'')) \<lparr>rows = [row 20 1, row 21 3, row 22 2], calls = []\<rparr> =
     (json 200 (ReadingsBody 2 [row 22 2, row 21 3]),
      \<lparr>rows = [row 20 1, row 21 3, row 22 2], calls = [SelectRecent (Fin 2)]\<rparr>)
   \<and> get_readings sample_env (ask QUndefined) empty_db =
     (json 200 (ReadingsBody 0 []), \<lparr>rows = [], calls = [SelectRecent (Fin 100)]\<rparr>)"
proof -
  have s: "sb_select_recent sample_env (Fin 2) \<lparr>rows = [row 20 1, row 21 3, row 22 2], calls = []\<rparr> =
     (returned [row 21 3, row 22 2], \<lparr>rows = [row 20 1, row 21 3, row 22 2], calls = [SelectRecent (Fin 2)]\<rparr>)"
    by (simp add: sb_select_recent_def sample_env_def newest_first_def row_def Let_def)
  have n: "parseInt (query (ask (QStr ''2'')) ''limit'') = Inr (Fin 2)"
    and l: "Fin 2 = Math_min [if truthy (JNum (Fin 2)) then Fin 2 else Fin 100, Fin 1000]"
    by (simp_all add: ask_def parseInt_samples Math_min_def)
  have n': "parseInt (query (ask QUndefined) ''limit'') = Inr NaN"
    and l': "Fin 100 = Math_min [if truthy (JNum NaN) then NaN else Fin 100, Fin 1000]"
    by (simp_all add: ask_def parseInt_samples Math_min_def)
  have g: "get_readings sample_env (ask (QStr ''2'')) \<lparr>rows = [row 20 1, row 21 3, row 22 2], calls = []\<rparr> =
     (json 200 (ReadingsBody 2 [row 22 2, row 21 3]),
      \<lparr>rows = [row 20 1, row 21 3, row 22 2], calls = [SelectRecent (Fin 2)]\<rparr>)"
    using recent_oldest_first [OF n l, of sample_env "\<lparr>rows = [row 20 1, row 21 3, row 22 2], calls = []\<rparr>"] s
    by (simp add: numeral_2_eq_2)
  have e: "get_readings sample_env (ask QUndefined) empty_db =
     (json 200 (ReadingsBody 0 []), \<lparr>rows = [], calls = [SelectRecent (Fin 100)]\<rparr>)"
    using recent_oldest_first [OF n' l', of sample_env empty_db]
    by (simp add: sample_env_def empty_db_def ask_def)
  from s g e show ?thesis by simp
qed

end
